theory Spec2Isabelle
  imports Complex_Main "HOL-Library.Finite_Map" "HOL-Library.Sublist" "HOL-Library.AList"
begin

section \<open>JavaScript values used by the weather application\<close>

text \<open>
  A JavaScript number is a double. The model keeps the three special values apart and
  treats every other number as an exact real, so rounding of the last bit is not modelled;
  the quantities that occur (millisecond timestamps, small counters, temperatures with one
  decimal) are far inside the range where doubles are exact or the rounding cannot be seen.
\<close>

datatype jsnum = NaN | Fin real | PosInf | NegInf

text \<open>Truthiness of a number, as used by \<open>x || y\<close>: \<open>NaN\<close> and \<open>0\<close> are falsy.\<close>

fun truthyNum :: "jsnum \<Rightarrow> bool" where
  "truthyNum NaN = False"
| "truthyNum (Fin x) = (x \<noteq> 0)"
| "truthyNum PosInf = True"
| "truthyNum NegInf = True"

definition orNum :: "jsnum \<Rightarrow> jsnum \<Rightarrow> jsnum" where
  "orNum a b = (if truthyNum a then a else b)"

text \<open>\<open>a < b\<close> on numbers: every comparison with \<open>NaN\<close> is false.\<close>

fun jsLess :: "jsnum \<Rightarrow> jsnum \<Rightarrow> bool" where
  "jsLess NaN b = False"
| "jsLess a NaN = False"
| "jsLess (Fin x) (Fin y) = (x < y)"
| "jsLess (Fin x) PosInf = True"
| "jsLess (Fin x) NegInf = False"
| "jsLess PosInf b = False"
| "jsLess NegInf NegInf = False"
| "jsLess NegInf b = True"

definition jsGreater :: "jsnum \<Rightarrow> jsnum \<Rightarrow> bool" where
  "jsGreater a b = jsLess b a"

text \<open>\<open>a >= b\<close>: false when either side is \<open>NaN\<close>, otherwise the negation of \<open>a < b\<close>.\<close>

definition jsGreaterEq :: "jsnum \<Rightarrow> jsnum \<Rightarrow> bool" where
  "jsGreaterEq a b = (a \<noteq> NaN \<and> b \<noteq> NaN \<and> \<not> jsLess a b)"

fun jsAdd :: "jsnum \<Rightarrow> jsnum \<Rightarrow> jsnum" where
  "jsAdd NaN b = NaN"
| "jsAdd a NaN = NaN"
| "jsAdd (Fin x) (Fin y) = Fin (x + y)"
| "jsAdd (Fin x) b = b"
| "jsAdd a (Fin y) = a"
| "jsAdd PosInf PosInf = PosInf"
| "jsAdd NegInf NegInf = NegInf"
| "jsAdd PosInf NegInf = NaN"
| "jsAdd NegInf PosInf = NaN"

fun jsNeg :: "jsnum \<Rightarrow> jsnum" where
  "jsNeg NaN = NaN"
| "jsNeg (Fin x) = Fin (- x)"
| "jsNeg PosInf = NegInf"
| "jsNeg NegInf = PosInf"

definition jsSub :: "jsnum \<Rightarrow> jsnum \<Rightarrow> jsnum" where
  "jsSub a b = jsAdd a (jsNeg b)"

text \<open>Division by the positive literal \<open>1000\<close>, the only division of the server.\<close>

fun jsDiv1000 :: "jsnum \<Rightarrow> jsnum" where
  "jsDiv1000 (Fin x) = Fin (x / 1000)"
| "jsDiv1000 a = a"

fun mathCeil :: "jsnum \<Rightarrow> jsnum" where
  "mathCeil (Fin x) = Fin (of_int \<lceil>x\<rceil>)"
| "mathCeil a = a"

text \<open>\<open>Math.max(a, b)\<close>: \<open>NaN\<close> when an argument is \<open>NaN\<close>.\<close>

definition mathMax :: "jsnum \<Rightarrow> jsnum \<Rightarrow> jsnum" where
  "mathMax a b = (if a = NaN \<or> b = NaN then NaN else if jsLess a b then b else a)"

subsection \<open>Strings\<close>

text \<open>
  Strings are lists of 8-bit characters. \<open>trim\<close> removes the white space and line
  terminators of that range from both ends; \<open>toLowerCase\<close> and \<open>toUpperCase\<close> act on the
  ASCII letters. Text outside ASCII is not modelled.
\<close>

definition isSpace :: "char \<Rightarrow> bool" where
  "isSpace c = (c \<in> set [CHR 0x09, CHR 0x0A, CHR 0x0B, CHR 0x0C, CHR 0x0D, CHR 0x20, CHR 0xA0])"

definition trim :: "string \<Rightarrow> string" where
  "trim s = rev (dropWhile isSpace (rev (dropWhile isSpace s)))"

definition lowerChar :: "char \<Rightarrow> char" where
  "lowerChar c =
     (case map_of (zip ''ABCDEFGHIJKLMNOPQRSTUVWXYZ'' ''abcdefghijklmnopqrstuvwxyz'') c of
        Some d \<Rightarrow> d
      | None \<Rightarrow> c)"

definition upperChar :: "char \<Rightarrow> char" where
  "upperChar c =
     (case map_of (zip ''abcdefghijklmnopqrstuvwxyz'' ''ABCDEFGHIJKLMNOPQRSTUVWXYZ'') c of
        Some d \<Rightarrow> d
      | None \<Rightarrow> c)"

definition toLowerCase :: "string \<Rightarrow> string" where
  "toLowerCase s = map lowerChar s"

definition toUpperCase :: "string \<Rightarrow> string" where
  "toUpperCase s = map upperChar s"

text \<open>\<open>a || b\<close> on an optional string: \<open>undefined\<close>, \<open>null\<close> and \<open>""\<close> are falsy.\<close>

fun truthyStr :: "string option \<Rightarrow> bool" where
  "truthyStr None = False"
| "truthyStr (Some s) = (s \<noteq> [])"

definition orStr :: "string option \<Rightarrow> string option \<Rightarrow> string option" where
  "orStr a b = (if truthyStr a then a else b)"

definition orElse :: "string option \<Rightarrow> string \<Rightarrow> string" where
  "orElse a d = (case a of Some s \<Rightarrow> (if s = [] then d else s) | None \<Rightarrow> d)"

subsection \<open>Query-string values\<close>

text \<open>
  Express parses the query string into \<open>req.query\<close>: a parameter that occurs once is a
  string, a repeated parameter or one written with brackets is an array or an object of
  such values. Every array and every object is truthy, also an array of empty strings.
  \<open>queryText\<close> is \<open>String(value)\<close>, the text that \<open>buildWeatherUrl\<close> sends: an array is
  its elements joined by commas, an object is \<open>[object Object]\<close>. An object with a key
  \<open>toString\<close> of its own, for which \<open>String\<close> throws, is not modelled.
\<close>

datatype qvalue = QString string | QArray "qvalue list" | QObject "(string \<times> qvalue) list"

fun joinComma :: "string list \<Rightarrow> string" where
  "joinComma [] = []"
| "joinComma [x] = x"
| "joinComma (x # y # ys) = x @ '','' @ joinComma (y # ys)"

fun queryText :: "qvalue \<Rightarrow> string" where
  "queryText (QString s) = s"
| "queryText (QArray xs) = joinComma (map queryText xs)"
| "queryText (QObject kvs) = ''[object Object]''"

fun truthyQuery :: "qvalue option \<Rightarrow> bool" where
  "truthyQuery None = False"
| "truthyQuery (Some (QString s)) = (s \<noteq> [])"
| "truthyQuery (Some (QArray xs)) = True"
| "truthyQuery (Some (QObject kvs)) = True"

definition orQuery :: "qvalue option \<Rightarrow> qvalue option \<Rightarrow> qvalue option" where
  "orQuery a b = (if truthyQuery a then a else b)"

section \<open>Server: the rate limiter\<close>

text \<open>
  The request as the middleware and the handlers read it: \<open>req.path\<close>, the
  \<open>x-forwarded-for\<close> header, \<open>req.ip\<close>, \<open>req.connection?.remoteAddress\<close>, and the two
  query-string parameters \<open>req.query.query\<close> and \<open>req.query.location\<close>, each absent
  (\<open>None\<close>) or the value that Express parsed.
\<close>

record request =
  path :: string
  xForwardedFor :: "string option"
  ip :: "string option"
  remoteAddress :: "string option"
  queryParam :: "qvalue option"
  locationParam :: "qvalue option"

text \<open>
  The environment of the process: \<open>Number(process.env.RATE_LIMIT_WINDOW_MS)\<close> and
  \<open>Number(process.env.RATE_LIMIT_MAX)\<close> as the numbers that the built-in conversion
  returns (\<open>NaN\<close> for an unset or unparsable variable), \<open>process.env.WEATHERAPI_KEY\<close>
  and \<open>process.env.WEATHERAPI_BASE_URL\<close>.
\<close>

record environment =
  RATE_LIMIT_WINDOW_MS :: jsnum
  RATE_LIMIT_MAX :: jsnum
  WEATHERAPI_KEY :: "string option"
  WEATHERAPI_BASE_URL :: "string option"

definition rateLimitWindowMs :: "environment \<Rightarrow> jsnum" where
  "rateLimitWindowMs env = orNum (RATE_LIMIT_WINDOW_MS env) (Fin 60000)"

definition rateLimitMax :: "environment \<Rightarrow> jsnum" where
  "rateLimitMax env = mathMax (Fin 1) (orNum (RATE_LIMIT_MAX env) (Fin 5))"

definition rateLimitMessage :: string where
  "rateLimitMessage = ''Too many requests, please try again later.''"

record rateEntry =
  count :: nat
  resetTime :: jsnum

type_synonym rateLimitStore = "(string, rateEntry) fmap"

text \<open>\<open>forwarded.split(",")[0].trim()\<close>, else \<open>req.ip || remoteAddress || "unknown"\<close>.\<close>

definition getClientIp :: "request \<Rightarrow> string" where
  "getClientIp req =
     (case xForwardedFor req of
        Some forwarded \<Rightarrow>
          if forwarded \<noteq> [] then trim (takeWhile (\<lambda>c. c \<noteq> CHR '','') forwarded)
          else orElse (orStr (ip req) (remoteAddress req)) ''unknown''
      | None \<Rightarrow> orElse (orStr (ip req) (remoteAddress req)) ''unknown'')"

definition shouldRateLimit :: "request \<Rightarrow> bool" where
  "shouldRateLimit req = prefix ''/api/weather'' (path req)"

text \<open>
  The store is a JavaScript \<open>Map\<close>: a finite map whose size is the number of its keys.
  The sweep deletes every entry whose reset time has passed, once the store holds 1000 keys.
\<close>

definition pruneRateLimitStore :: "int \<Rightarrow> rateLimitStore \<Rightarrow> rateLimitStore" where
  "pruneRateLimitStore now store =
     (if fcard (fmdom store) < 1000 then store
      else fmfilter (\<lambda>key. case fmlookup store key of
                              None \<Rightarrow> False
                            | Some v \<Rightarrow> \<not> jsGreater (Fin (of_int now)) (resetTime v)) store)"

text \<open>
  The JSON bodies of the server. A provider number is passed through unchanged, so a field
  that the provider left out stays absent (\<open>None\<close>). The name of a location is the
  provider's name, a string, or else the query value of the request as it is.
\<close>

record locationView =
  name :: qvalue
  country :: string
  localtime :: string

record currentView =
  temperature :: "real option"
  feelslike :: "real option"
  humidity :: "real option"
  wind_speed :: "real option"
  wind_dir :: "string option"
  pressure :: "real option"
  visibility :: "real option"
  precip :: "real option"
  weather_descriptions :: "string list"
  weather_icons :: "string list"

record weatherSnapshot =
  location :: locationView
  current :: currentView
  requestQuery :: qvalue
  fetchedAt :: string

record forecastDayView =
  date :: string
  maxTemp :: "real option"
  minTemp :: "real option"
  avgTemp :: "real option"
  chanceOfRain :: "real option"
  condition :: string
  icon :: string

record historyDayView =
  date :: string
  maxTemp :: "real option"
  minTemp :: "real option"
  avgTemp :: "real option"
  totalPrecip :: "real option"
  maxWind :: "real option"
  condition :: string
  icon :: string

record extendedOutlook =
  location :: locationView
  history :: "historyDayView list"
  forecast :: "forecastDayView list"
  historyError :: string
  forecastError :: string
  fetchedAt :: string

datatype body = ErrorBody string | WeatherBody weatherSnapshot | ExtendedBody extendedOutlook

text \<open>
  A response: the status, the \<open>Retry-After\<close> header when it is set (the source writes
  \<open>String(retryAfterSeconds)\<close>; the model keeps the number) and the JSON body.
  The middleware either passes the request on (\<open>next()\<close>) or answers it.
\<close>

datatype reply = Reply nat "jsnum option" body

datatype gate = Next | Respond reply

definition rateLimit ::
  "environment \<Rightarrow> int \<Rightarrow> request \<Rightarrow> rateLimitStore \<Rightarrow> gate \<times> rateLimitStore" where
  "rateLimit env now req store =
     (if \<not> shouldRateLimit req then (Next, store)
      else
        let pruned = pruneRateLimitStore now store;
            key = getClientIp req;
            fresh = \<lparr>count = 1, resetTime = jsAdd (Fin (of_int now)) (rateLimitWindowMs env)\<rparr>
        in case fmlookup pruned key of
             None \<Rightarrow> (Next, fmupd key fresh pruned)
           | Some entry \<Rightarrow>
               if jsGreater (Fin (of_int now)) (resetTime entry) then (Next, fmupd key fresh pruned)
               else if jsGreaterEq (Fin (of_nat (count entry))) (rateLimitMax env) then
                 (Respond (Reply 429
                     (Some (mathMax (Fin 1)
                        (mathCeil (jsDiv1000 (jsSub (resetTime entry) (Fin (of_int now)))))))
                     (ErrorBody rateLimitMessage)),
                  pruned)
               else (Next, fmupd key (entry\<lparr>count := count entry + 1\<rparr>) pruned))"


text \<open>
  A run of the middleware over the requests in arrival order, each with the value of
  \<open>Date.now()\<close> at its arrival, returns the store that they leave behind.
\<close>

fun rateLimitRun :: "environment \<Rightarrow> (int \<times> request) list \<Rightarrow> rateLimitStore \<Rightarrow> rateLimitStore" where
  "rateLimitRun env [] store = store"
| "rateLimitRun env ((now, req) # rest) store =
     rateLimitRun env rest (snd (rateLimit env now req store))"

text \<open>An arrival is counted for a client key when the gate applies to it and it has that key.\<close>

definition fromClient :: "string \<Rightarrow> int \<times> request \<Rightarrow> bool" where
  "fromClient key arrival =
     (shouldRateLimit (snd arrival) \<and> getClientIp (snd arrival) = key)"

section \<open>Server: the upstream client and the two weather routes\<close>

text \<open>
  The provider's JSON, as far as the server reads it. Every access in the source is an
  optional chain, so every field may be absent (or \<open>null\<close>), and an element of
  \<open>forecastday\<close> may be \<open>null\<close>. A field that is present has the type of the
  provider's schema. The field \<open>text\<close> of a condition is written \<open>text'\<close>.
\<close>

record apiError =
  message :: "string option"

record apiCondition =
  text' :: "string option"
  icon :: "string option"

record apiLocation =
  name :: "string option"
  country :: "string option"
  localtime :: "string option"

record apiCurrent =
  temp_c :: "real option"
  feelslike_c :: "real option"
  humidity :: "real option"
  wind_kph :: "real option"
  wind_dir :: "string option"
  pressure_mb :: "real option"
  vis_km :: "real option"
  precip_mm :: "real option"
  condition :: "apiCondition option"

record apiDay =
  maxtemp_c :: "real option"
  mintemp_c :: "real option"
  avgtemp_c :: "real option"
  daily_chance_of_rain :: "real option"
  totalprecip_mm :: "real option"
  maxwind_kph :: "real option"
  condition :: "apiCondition option"

record apiForecastDay =
  date :: "string option"
  day :: "apiDay option"

record apiForecast =
  forecastday :: "apiForecastDay option list option"

record payload =
  error :: "apiError option"
  location :: "apiLocation option"
  current :: "apiCurrent option"
  forecast :: "apiForecast option"

text \<open>
  A URL built by \<open>buildWeatherUrl\<close>: the address before the query string and the search
  parameters in the order in which they were set.
\<close>

record url =
  address :: string
  searchParams :: "(string \<times> string) list"

text \<open>
  One upstream exchange, \<open>fetch(url)\<close> followed by \<open>response.json()\<close>: either of the two
  throws (\<open>Unreachable\<close>), or the provider replied with \<open>response.ok\<close> and the parsed body.
  The provider is a function of the URL.
\<close>

datatype fetched = Unreachable | Replied bool payload

type_synonym upstream = "url \<Rightarrow> fetched"

text \<open>
  The clock of the server: \<open>new Date().toISOString()\<close>, and the calendar date
  \<open>formatDate\<close> gives after \<open>date.setDate(date.getDate() - offset)\<close>.
\<close>

record clock =
  isoNow :: string
  isoDateDaysAgo :: "nat \<Rightarrow> string"

definition weatherApiBaseUrl :: "environment \<Rightarrow> string" where
  "weatherApiBaseUrl env = orElse (WEATHERAPI_BASE_URL env) ''http://api.weatherapi.com/v1''"

definition normalizeIconUrl :: "string option \<Rightarrow> string" where
  "normalizeIconUrl i =
     (case i of
        None \<Rightarrow> []
      | Some s \<Rightarrow> if s = [] then [] else if prefix ''http'' s then s else ''https:'' @ s)"

definition buildWeatherUrl :: "environment \<Rightarrow> string \<Rightarrow> (string \<times> string option) list \<Rightarrow> url" where
  "buildWeatherUrl env p params =
     \<lparr>address = weatherApiBaseUrl env @ ''/'' @ p,
      searchParams =
        foldl (\<lambda>acc (key, value). case value of None \<Rightarrow> acc | Some v \<Rightarrow> AList.update key v acc)
          [] params\<rparr>"

text \<open>The result object of \<open>requestWeather\<close>: \<open>{ error: message }\<close> or \<open>{ data }\<close>.\<close>

datatype weatherResult = ErrorResult string | DataResult payload

fun resultError :: "weatherResult \<Rightarrow> string option" where
  "resultError (ErrorResult e) = Some e"
| "resultError (DataResult d) = None"

fun resultData :: "weatherResult \<Rightarrow> payload option" where
  "resultData (ErrorResult e) = None"
| "resultData (DataResult d) = Some d"

definition requestWeather :: "upstream \<Rightarrow> url \<Rightarrow> weatherResult" where
  "requestWeather provider u =
     (case provider u of
        Unreachable \<Rightarrow> ErrorResult ''Unable to reach weather service''
      | Replied ok data \<Rightarrow>
          if \<not> ok \<or> error data \<noteq> None
          then ErrorResult (orElse (Option.bind (error data) message) ''Weather service error'')
          else DataResult data)"

definition conditionOf :: "apiForecastDay option \<Rightarrow> apiCondition option" where
  "conditionOf d = Option.bind (Option.bind d day) apiDay.condition"

definition mapForecastDay :: "apiForecastDay option \<Rightarrow> forecastDayView" where
  "mapForecastDay d =
     \<lparr>forecastDayView.date = orElse (Option.bind d apiForecastDay.date) [],
      forecastDayView.maxTemp = Option.bind (Option.bind d day) maxtemp_c,
      forecastDayView.minTemp = Option.bind (Option.bind d day) mintemp_c,
      forecastDayView.avgTemp = Option.bind (Option.bind d day) avgtemp_c,
      chanceOfRain = Option.bind (Option.bind d day) daily_chance_of_rain,
      forecastDayView.condition = orElse (Option.bind (conditionOf d) text') [],
      forecastDayView.icon = normalizeIconUrl (Option.bind (conditionOf d) apiCondition.icon)\<rparr>"

definition mapHistoryDay :: "apiForecastDay option \<Rightarrow> historyDayView" where
  "mapHistoryDay d =
     \<lparr>historyDayView.date = orElse (Option.bind d apiForecastDay.date) [],
      historyDayView.maxTemp = Option.bind (Option.bind d day) maxtemp_c,
      historyDayView.minTemp = Option.bind (Option.bind d day) mintemp_c,
      historyDayView.avgTemp = Option.bind (Option.bind d day) avgtemp_c,
      totalPrecip = Option.bind (Option.bind d day) totalprecip_mm,
      maxWind = Option.bind (Option.bind d day) maxwind_kph,
      historyDayView.condition = orElse (Option.bind (conditionOf d) text') [],
      historyDayView.icon = normalizeIconUrl (Option.bind (conditionOf d) apiCondition.icon)\<rparr>"

text \<open>\<open>data?.location\<close> mapped to the location of a response, with the query as the name
  when the provider gave none.\<close>

definition locationOf :: "payload option \<Rightarrow> qvalue \<Rightarrow> locationView" where
  "locationOf data query =
     \<lparr>locationView.name =
        (case Option.bind (Option.bind data payload.location) apiLocation.name of
           None \<Rightarrow> query
         | Some n \<Rightarrow> if n = [] then query else QString n),
      locationView.country =
        orElse (Option.bind (Option.bind data payload.location) apiLocation.country) [],
      locationView.localtime =
        orElse (Option.bind (Option.bind data payload.location) apiLocation.localtime) []\<rparr>"

definition currentOf :: "payload \<Rightarrow> currentView" where
  "currentOf data =
     (let conditionText = orElse (Option.bind (Option.bind (payload.current data) apiCurrent.condition) text') [];
          iconUrl = normalizeIconUrl (Option.bind (Option.bind (payload.current data) apiCurrent.condition) apiCondition.icon)
      in \<lparr>temperature = Option.bind (payload.current data) temp_c,
          feelslike = Option.bind (payload.current data) feelslike_c,
          currentView.humidity = Option.bind (payload.current data) apiCurrent.humidity,
          wind_speed = Option.bind (payload.current data) wind_kph,
          currentView.wind_dir = Option.bind (payload.current data) apiCurrent.wind_dir,
          pressure = Option.bind (payload.current data) pressure_mb,
          visibility = Option.bind (payload.current data) vis_km,
          precip = Option.bind (payload.current data) precip_mm,
          weather_descriptions = (if conditionText \<noteq> [] then [conditionText] else []),
          weather_icons = (if iconUrl \<noteq> [] then [iconUrl] else [])\<rparr>)"

text \<open>The URLs of the three kinds of upstream request, as the handlers build them; \<open>q\<close> is
  the text of the query value.\<close>

definition currentUrl :: "environment \<Rightarrow> string \<Rightarrow> string \<Rightarrow> url" where
  "currentUrl env accessKey q =
     buildWeatherUrl env ''current.json''
       [(''key'', Some accessKey), (''q'', Some q), (''aqi'', Some ''no'')]"

definition forecastUrl :: "environment \<Rightarrow> string \<Rightarrow> string \<Rightarrow> url" where
  "forecastUrl env accessKey q =
     buildWeatherUrl env ''forecast.json''
       [(''key'', Some accessKey), (''q'', Some q), (''days'', Some ''3''),
        (''aqi'', Some ''no''), (''alerts'', Some ''no'')]"

definition historyUrl :: "environment \<Rightarrow> string \<Rightarrow> string \<Rightarrow> string \<Rightarrow> url" where
  "historyUrl env accessKey q dt =
     buildWeatherUrl env ''history.json''
       [(''key'', Some accessKey), (''q'', Some q), (''dt'', Some dt)]"

fun replyStatus :: "reply \<Rightarrow> nat" where
  "replyStatus (Reply code header b) = code"

text \<open>
  A handler returns its response together with the URLs that it fetched, in order.
  \<open>weatherHandler\<close> is the handler of \<open>GET /api/weather\<close>; its query is
  \<open>req.query.query || req.query.location\<close>.
\<close>

definition missingQuery :: "reply \<times> url list" where
  "missingQuery = (Reply 400 None (ErrorBody ''Missing query parameter''), [])"

definition missingKey :: "reply \<times> url list" where
  "missingKey = (Reply 500 None (ErrorBody ''WEATHERAPI_KEY is not set''), [])"

definition weatherHandler :: "environment \<Rightarrow> clock \<Rightarrow> upstream \<Rightarrow> request \<Rightarrow> reply \<times> url list" where
  "weatherHandler env clk provider req =
     (case orQuery (queryParam req) (locationParam req) of
        None \<Rightarrow> missingQuery
      | Some query \<Rightarrow>
          if \<not> truthyQuery (Some query) then missingQuery
          else case WEATHERAPI_KEY env of
            None \<Rightarrow> missingKey
          | Some accessKey \<Rightarrow>
              if accessKey = [] then missingKey
              else
                let u = currentUrl env accessKey (queryText query)
                in case provider u of
                     Unreachable \<Rightarrow>
                       (Reply 502 None (ErrorBody ''Unable to reach weather service''), [u])
                   | Replied ok data \<Rightarrow>
                       if \<not> ok \<or> error data \<noteq> None
                       then (Reply 502 None
                               (ErrorBody (orElse (Option.bind (error data) message)
                                             ''Weather service error'')), [u])
                       else (Reply 200 None
                               (WeatherBody
                                  \<lparr>weatherSnapshot.location = locationOf (Some data) query,
                                   weatherSnapshot.current = currentOf data,
                                   requestQuery = query,
                                   weatherSnapshot.fetchedAt = isoNow clk\<rparr>), [u]))"

text \<open>\<open>result.data?.forecast?.forecastday\<close> and its element \<open>[0]\<close>.\<close>

definition forecastdayOf :: "weatherResult \<Rightarrow> apiForecastDay option list option" where
  "forecastdayOf result = Option.bind (Option.bind (resultData result) payload.forecast) forecastday"

definition firstDay :: "weatherResult \<Rightarrow> apiForecastDay option" where
  "firstDay result =
     (case forecastdayOf result of
        None \<Rightarrow> None
      | Some [] \<Rightarrow> None
      | Some (d # ds) \<Rightarrow> d)"

text \<open>
  \<open>extendedHandler\<close> is the handler of \<open>GET /api/weather/extended\<close>. It awaits the
  forecast first and starts the two history requests, for one and two days ago, afterwards.
\<close>

definition extendedHandler :: "environment \<Rightarrow> clock \<Rightarrow> upstream \<Rightarrow> request \<Rightarrow> reply \<times> url list" where
  "extendedHandler env clk provider req =
     (case orQuery (queryParam req) (locationParam req) of
        None \<Rightarrow> missingQuery
      | Some query \<Rightarrow>
          if \<not> truthyQuery (Some query) then missingQuery
          else case WEATHERAPI_KEY env of
            None \<Rightarrow> missingKey
          | Some accessKey \<Rightarrow>
              if accessKey = [] then missingKey
              else
                let forecastAt = forecastUrl env accessKey (queryText query);
                    historyDates = map (isoDateDaysAgo clk) [1, 2];
                    historyUrls = map (historyUrl env accessKey (queryText query)) historyDates;
                    forecastResult = requestWeather provider forecastAt
                in if truthyStr (resultError forecastResult)
                   then (Reply 502 None (ErrorBody (orElse (resultError forecastResult) [])),
                         [forecastAt])
                   else
                     let historyResults = map (requestWeather provider) historyUrls;
                         historyDays = map (\<lambda>d. mapHistoryDay (Some d))
                                         (List.map_filter firstDay historyResults);
                         historyError =
                           (case find (\<lambda>result. truthyStr (resultError result)) historyResults of
                              None \<Rightarrow> []
                            | Some result \<Rightarrow> orElse (resultError result) []);
                         forecastDays =
                           (case forecastdayOf forecastResult of
                              None \<Rightarrow> []
                            | Some days \<Rightarrow> map mapForecastDay (drop 1 days));
                         forecastError =
                           (if forecastDays \<noteq> [] then [] else ''Forecast unavailable'')
                     in (Reply 200 None
                           (ExtendedBody
                              \<lparr>extendedOutlook.location =
                                 locationOf (resultData forecastResult) query,
                               history = historyDays,
                               forecast = forecastDays,
                               historyError = historyError,
                               forecastError = forecastError,
                               extendedOutlook.fetchedAt = isoNow clk\<rparr>),
                         forecastAt # historyUrls))"


section \<open>Client: cache, in-flight flags and throttle\<close>

text \<open>
  The build-time configuration and the built-ins of the browser that the cache logic calls:
  \<open>Number(import.meta.env.VITE_CACHE_TTL_MS)\<close>,
  \<open>Number(import.meta.env.VITE_REQUEST_THROTTLE_MS)\<close>, \<open>Date.parse\<close> and
  \<open>new Date().toISOString()\<close> as a function of \<open>Date.now()\<close>.
\<close>

record browser =
  VITE_CACHE_TTL_MS :: jsnum
  VITE_REQUEST_THROTTLE_MS :: jsnum
  dateParse :: "string \<Rightarrow> jsnum"
  toISOString :: "int \<Rightarrow> string"

definition cacheTtlMs :: "browser \<Rightarrow> jsnum" where
  "cacheTtlMs b = orNum (VITE_CACHE_TTL_MS b) (Fin (5 * 60 * 1000))"

definition throttleMs :: "browser \<Rightarrow> jsnum" where
  "throttleMs b = orNum (VITE_REQUEST_THROTTLE_MS b) (Fin 1200)"

definition maxRecent :: nat where
  "maxRecent = 6"

text \<open>
  A cache entry is the JSON body that the server sent, spread into an object with
  \<open>cachedAt\<close>. An entry written by this code has a number there; one read back from
  \<open>localStorage\<close> may have a string or nothing.
\<close>

datatype stamp = NumStamp real | StrStamp string | NoStamp

record cacheEntry =
  content :: body
  cachedAt :: stamp

text \<open>The fields of the body that the cache logic reads: \<open>data.error\<close>,
  \<open>data?.fetchedAt\<close> and \<open>data?.current?.temperature\<close>.\<close>

fun bodyError :: "body \<Rightarrow> string option" where
  "bodyError (ErrorBody e) = Some e"
| "bodyError (WeatherBody w) = None"
| "bodyError (ExtendedBody x) = None"

fun bodyFetchedAt :: "body \<Rightarrow> string option" where
  "bodyFetchedAt (ErrorBody e) = None"
| "bodyFetchedAt (WeatherBody w) = Some (weatherSnapshot.fetchedAt w)"
| "bodyFetchedAt (ExtendedBody x) = Some (extendedOutlook.fetchedAt x)"

fun bodyTemperature :: "body \<Rightarrow> real option" where
  "bodyTemperature (ErrorBody e) = None"
| "bodyTemperature (WeatherBody w) = temperature (weatherSnapshot.current w)"
| "bodyTemperature (ExtendedBody x) = None"

definition parseCachedAt :: "browser \<Rightarrow> cacheEntry \<Rightarrow> jsnum" where
  "parseCachedAt b entry =
     (let viaFetchedAt =
            (case bodyFetchedAt (content entry) of
               None \<Rightarrow> Fin 0
             | Some f \<Rightarrow> if dateParse b f \<noteq> NaN then dateParse b f else Fin 0)
      in case cachedAt entry of
           NumStamp n \<Rightarrow> Fin n
         | StrStamp s \<Rightarrow> if dateParse b s \<noteq> NaN then dateParse b s else viaFetchedAt
         | NoStamp \<Rightarrow> viaFetchedAt)"

definition isCacheFresh :: "browser \<Rightarrow> int \<Rightarrow> cacheEntry \<Rightarrow> bool" where
  "isCacheFresh b now entry =
     (let stamped = parseCachedAt b entry
      in if \<not> truthyNum stamped then False
         else jsLess (jsSub (Fin (of_int now)) stamped) (cacheTtlMs b))"

text \<open>What the server of the application answered to the browser's \<open>fetch\<close>: the call
  or the parsing threw an error with the given message, or a body arrived with
  \<open>response.ok\<close>.\<close>

datatype received = Failed string | Received bool body

record savedTemp =
  temperature :: real
  fetchedAt :: string

text \<open>
  The state of the component that the fetch functions read and write: the React state
  variables and the two refs \<open>requestCooldowns\<close> and \<open>requestInFlight\<close>. State updates
  take effect at once and a function reads the current state; the effects that copy
  state to \<open>localStorage\<close> are left out.
\<close>

record appState =
  weatherCache :: "string \<rightharpoonup> cacheEntry"
  weather :: "cacheEntry option"
  status :: string
  error :: string
  activeLocation :: string
  geoError :: string
  showSuggestions :: bool
  savedTemps :: "string \<rightharpoonup> savedTemp"
  recentSearches :: "string list"
  quickLocations :: "string list"
  extendedCache :: "string \<rightharpoonup> cacheEntry"
  extendedData :: "cacheEntry option"
  extendedStatus :: string
  extendedError :: string
  requestCooldowns :: "string \<rightharpoonup> int"
  requestInFlight :: "string \<rightharpoonup> bool"

text \<open>\<open>shouldThrottle\<close> returns its answer and the state, in which it has recorded the
  time of a call that it lets through.\<close>

definition shouldThrottle :: "browser \<Rightarrow> int \<Rightarrow> string \<Rightarrow> bool \<Rightarrow> appState \<Rightarrow> bool \<times> appState" where
  "shouldThrottle b now key force st =
     (if force then (False, st)
      else
        let last = (case requestCooldowns st key of None \<Rightarrow> 0 | Some t \<Rightarrow> t)
        in if jsLess (Fin (of_int (now - last))) (throttleMs b) then (True, st)
           else (False, st\<lparr>requestCooldowns := (requestCooldowns st)(key \<mapsto> now)\<rparr>))"

definition isInFlight :: "appState \<Rightarrow> string \<Rightarrow> bool" where
  "isInFlight st key = (case requestInFlight st key of None \<Rightarrow> False | Some flag \<Rightarrow> flag)"

definition markRequestStart :: "string \<Rightarrow> appState \<Rightarrow> appState" where
  "markRequestStart key st = st\<lparr>requestInFlight := (requestInFlight st)(key \<mapsto> True)\<rparr>"

definition markRequestEnd :: "string \<Rightarrow> appState \<Rightarrow> appState" where
  "markRequestEnd key st = st\<lparr>requestInFlight := (requestInFlight st)(key := None)\<rparr>"

definition addRecentSearch :: "string \<Rightarrow> appState \<Rightarrow> appState" where
  "addRecentSearch v st =
     (let cleaned = trim v
      in if cleaned = [] then st
         else st\<lparr>recentSearches :=
                   take maxRecent
                     (cleaned # filter (\<lambda>item. toLowerCase item \<noteq> toLowerCase cleaned)
                                  (recentSearches st))\<rparr>)"

definition recordSavedTemp :: "browser \<Rightarrow> int \<Rightarrow> string \<Rightarrow> cacheEntry \<Rightarrow> appState \<Rightarrow> appState" where
  "recordSavedTemp b now loc data st =
     (case bodyTemperature (content data) of
        None \<Rightarrow> st
      | Some temp \<Rightarrow>
          let stampText = orElse (bodyFetchedAt (content data)) (toISOString b now);
              key = orElse (find (\<lambda>item. toLowerCase item = toLowerCase loc) (quickLocations st)) loc
          in st\<lparr>savedTemps :=
                    (savedTemps st)(key \<mapsto> \<lparr>savedTemp.temperature = temp,
                                                 savedTemp.fetchedAt = stampText\<rparr>)\<rparr>)"

text \<open>
  The block \<open>setWeather(cached); recordSavedTemp(cleaned, cached); addRecentSearch(cleaned);
  setStatus("ready"); setError("")\<close> occurs twice in \<open>fetchWeather\<close>, the second time under
  \<open>if (cached)\<close>; \<open>cached\<close> is the value read at the start of the call.
\<close>

definition serveCachedWeather :: "browser \<Rightarrow> int \<Rightarrow> string \<Rightarrow> cacheEntry option \<Rightarrow> appState \<Rightarrow> appState" where
  "serveCachedWeather b now cleaned cached st =
     (case cached of
        None \<Rightarrow> st
      | Some c \<Rightarrow>
          (addRecentSearch cleaned (recordSavedTemp b now cleaned c (st\<lparr>weather := Some c\<rparr>)))
            \<lparr>status := ''ready'', error := []\<rparr>)"

text \<open>
  \<open>fetchWeather\<close> up to its \<open>await fetch(...)\<close>. The result is the new state and the
  network request that the call issued, if any: \<open>Some cleaned\<close> stands for
  \<open>GET /api/weather?query=cleaned\<close>. All readings of \<open>Date.now()\<close> in this synchronous part
  are the one value \<open>now\<close>.
\<close>

definition fetchWeather :: "browser \<Rightarrow> int \<Rightarrow> string \<Rightarrow> bool \<Rightarrow> appState \<Rightarrow> appState \<times> string option" where
  "fetchWeather b now loc force st =
     (let cleaned = trim loc
      in if cleaned = [] then (st, None)
         else
           let cached = weatherCache st cleaned;
               isFresh = (\<not> force \<and> (case cached of None \<Rightarrow> False | Some c \<Rightarrow> isCacheFresh b now c));
               st1 = (case cached of
                        None \<Rightarrow> st
                      | Some c \<Rightarrow>
                          if \<not> isCacheFresh b now c
                          then st\<lparr>weatherCache := (weatherCache st)(cleaned := None)\<rparr>
                          else st);
               st2 = st1\<lparr>geoError := [], showSuggestions := False, activeLocation := cleaned\<rparr>
           in if isFresh then (serveCachedWeather b now cleaned cached st2, None)
              else
                let throttleKey = ''weather:'' @ toLowerCase cleaned
                in if isInFlight st2 throttleKey
                   then (serveCachedWeather b now cleaned cached st2, None)
                   else
                     let (throttled, st3) = shouldThrottle b now throttleKey force st2
                     in if throttled then (serveCachedWeather b now cleaned cached st3, None)
                        else (markRequestStart throttleKey (st3\<lparr>status := ''loading'', error := []\<rparr>),
                              Some cleaned))"

text \<open>The rest of \<open>fetchWeather\<close>, run when the request of the call for \<open>loc\<close> has
  settled with \<open>result\<close> at time \<open>now\<close>.\<close>

definition fetchWeatherSettled :: "browser \<Rightarrow> int \<Rightarrow> string \<Rightarrow> received \<Rightarrow> appState \<Rightarrow> appState" where
  "fetchWeatherSettled b now loc result st =
     (let cleaned = trim loc;
          throttleKey = ''weather:'' @ toLowerCase cleaned;
          failed = (\<lambda>msg. st\<lparr>status := ''error'',
                               error := (if msg = [] then ''Unable to fetch weather data'' else msg)\<rparr>)
      in markRequestEnd throttleKey
           (case result of
              Failed msg \<Rightarrow> failed msg
            | Received ok data \<Rightarrow>
                if \<not> ok \<or> truthyStr (bodyError data)
                then failed (orElse (bodyError data) ''Unable to fetch weather data'')
                else
                  let cachedData = \<lparr>content = data, cachedAt = NumStamp (of_int now)\<rparr>
                  in (addRecentSearch cleaned
                        (recordSavedTemp b now cleaned cachedData
                           (st\<lparr>weather := Some cachedData,
                                weatherCache := (weatherCache st)(cleaned \<mapsto> cachedData)\<rparr>)))
                       \<lparr>status := ''ready''\<rparr>))"

definition serveCachedExtended :: "cacheEntry option \<Rightarrow> appState \<Rightarrow> appState" where
  "serveCachedExtended cached st =
     (case cached of
        None \<Rightarrow> st
      | Some c \<Rightarrow> st\<lparr>extendedData := Some c, extendedStatus := ''ready'', extendedError := []\<rparr>)"

text \<open>\<open>fetchExtended\<close> up to its \<open>await\<close>; \<open>Some cleaned\<close> stands for
  \<open>GET /api/weather/extended?query=cleaned\<close>.\<close>

definition fetchExtended :: "browser \<Rightarrow> int \<Rightarrow> string \<Rightarrow> bool \<Rightarrow> appState \<Rightarrow> appState \<times> string option" where
  "fetchExtended b now loc force st =
     (let cleaned = trim loc
      in if cleaned = [] then (st, None)
         else
           let cached = extendedCache st cleaned;
               isFresh = (\<not> force \<and> (case cached of None \<Rightarrow> False | Some c \<Rightarrow> isCacheFresh b now c));
               st1 = (case cached of
                        None \<Rightarrow> st
                      | Some c \<Rightarrow>
                          if \<not> isCacheFresh b now c
                          then st\<lparr>extendedCache := (extendedCache st)(cleaned := None)\<rparr>
                          else st)
           in if isFresh then (serveCachedExtended cached st1, None)
              else
                let throttleKey = ''extended:'' @ toLowerCase cleaned
                in if isInFlight st1 throttleKey
                   then (serveCachedExtended cached st1, None)
                   else
                     let (throttled, st2) = shouldThrottle b now throttleKey force st1
                     in if throttled then (serveCachedExtended cached st2, None)
                        else (markRequestStart throttleKey
                                (st2\<lparr>extendedStatus := ''loading'', extendedError := []\<rparr>),
                              Some cleaned))"

definition fetchExtendedSettled :: "browser \<Rightarrow> int \<Rightarrow> string \<Rightarrow> received \<Rightarrow> appState \<Rightarrow> appState" where
  "fetchExtendedSettled b now loc result st =
     (let cleaned = trim loc;
          throttleKey = ''extended:'' @ toLowerCase cleaned;
          failed = (\<lambda>msg. st\<lparr>extendedStatus := ''error'',
                               extendedError :=
                                 (if msg = [] then ''Unable to fetch extended weather data'' else msg)\<rparr>)
      in markRequestEnd throttleKey
           (case result of
              Failed msg \<Rightarrow> failed msg
            | Received ok data \<Rightarrow>
                if \<not> ok \<or> truthyStr (bodyError data)
                then failed (orElse (bodyError data) ''Unable to fetch extended weather data'')
                else
                  let cachedData = \<lparr>content = data, cachedAt = NumStamp (of_int now)\<rparr>
                  in st\<lparr>extendedData := Some cachedData,
                        extendedCache := (extendedCache st)(cleaned \<mapsto> cachedData),
                        extendedStatus := ''ready''\<rparr>))"

section \<open>Client: temperature display\<close>

definition toFahrenheit :: "real \<Rightarrow> real" where
  "toFahrenheit v = (v * 9) / 5 + 32"

text \<open>
  \<open>formatTemp\<close> returns \<open>"--"\<close> for \<open>undefined\<close> or \<open>null\<close> and otherwise the text
  \<open>`${Math.round(converted)} ${unit.toUpperCase()}`\<close>, kept here as the rounded number and
  the unit. \<open>Math.round\<close> rounds a half upwards, as \<open>round\<close> does. The value is a
  temperature of a response, a finite number, for which \<open>Number(value)\<close> is the value.
\<close>

datatype tempLabel = Dashes | Degrees int string

definition formatTemp :: "real option \<Rightarrow> string \<Rightarrow> tempLabel" where
  "formatTemp v unit =
     (case v of
        None \<Rightarrow> Dashes
      | Some numeric \<Rightarrow>
          let converted = (if unit = ''f'' then toFahrenheit numeric else numeric)
          in Degrees (round converted) (toUpperCase unit))"

text \<open>
  Modelled from the spec: the conversion from Fahrenheit back to Celsius. The source has
  no such function (it only converts for display); this is the inverse that the round-trip
  property of the specification speaks of.
\<close>

definition spec_toCelsius :: "real \<Rightarrow> real" where
  "spec_toCelsius f = (f - 32) * 5 / 9"


section \<open>Sample values\<close>

text \<open>Concrete requests, environments and states at which the theorems below are
  instantiated.\<close>

definition sampleRequest :: request where
  "sampleRequest =
     \<lparr>path = ''/api/weather'', xForwardedFor = None, ip = Some ''203.0.113.7'',
      remoteAddress = None, queryParam = Some (QString ''Berlin''), locationParam = None\<rparr>"

definition defaultEnvironment :: environment where
  "defaultEnvironment =
     \<lparr>RATE_LIMIT_WINDOW_MS = NaN, RATE_LIMIT_MAX = NaN,
      WEATHERAPI_KEY = Some ''secret'', WEATHERAPI_BASE_URL = None\<rparr>"



definition sampleClock :: clock where
  "sampleClock = \<lparr>isoNow = ''2024-05-03T10:00:00.000Z'',
                   isoDateDaysAgo = (\<lambda>offset. if offset = 1 then ''2024-05-02'' else ''2024-05-01'')\<rparr>"

definition emptyPayload :: payload where
  "emptyPayload = \<lparr>payload.error = None, payload.location = None, payload.current = None, payload.forecast = None\<rparr>"

definition locationOnlyRequest :: request where
  "locationOnlyRequest =
     \<lparr>path = ''/api/weather'', xForwardedFor = None, ip = Some ''203.0.113.7'',
      remoteAddress = None, queryParam = None, locationParam = Some (QString ''Berlin'')\<rparr>"

definition noQueryRequest :: request where
  "noQueryRequest =
     \<lparr>path = ''/api/weather'', xForwardedFor = None, ip = Some ''203.0.113.7'',
      remoteAddress = None, queryParam = None, locationParam = None\<rparr>"

definition emptyMessagePayload :: payload where
  "emptyMessagePayload =
     \<lparr>payload.error = Some \<lparr>message = Some []\<rparr>, payload.location = None, payload.current = None, payload.forecast = None\<rparr>"

definition noMatchPayload :: payload where
  "noMatchPayload =
     \<lparr>payload.error = Some \<lparr>message = Some ''No matching location found.''\<rparr>, payload.location = None,
      payload.current = None, payload.forecast = None\<rparr>"

definition threeDayPayload :: payload where
  "threeDayPayload =
     \<lparr>payload.error = None, payload.location = None, payload.current = None,
      payload.forecast = Some \<lparr>forecastday =
        Some [Some \<lparr>apiForecastDay.date = Some ''2024-05-03'', day = None\<rparr>,
              Some \<lparr>apiForecastDay.date = Some ''2024-05-04'', day = None\<rparr>,
              Some \<lparr>apiForecastDay.date = Some ''2024-05-05'', day = None\<rparr>]\<rparr>\<rparr>"

text \<open>A provider that answers the forecast request and cannot be reached for any other.\<close>

definition forecastOnlyProvider :: upstream where
  "forecastOnlyProvider u =
     (if address u = ''http://api.weatherapi.com/v1/forecast.json''
      then Replied True threeDayPayload else Unreachable)"

definition sampleBrowser :: browser where
  "sampleBrowser =
     \<lparr>VITE_CACHE_TTL_MS = NaN, VITE_REQUEST_THROTTLE_MS = NaN,
      dateParse = (\<lambda>s. NaN), toISOString = (\<lambda>t. ''2023-11-14T22:13:20.000Z'')\<rparr>"

definition initialState :: appState where
  "initialState =
     \<lparr>weatherCache = Map.empty, weather = None, status = ''idle'', error = [],
      activeLocation = ''Berlin'', geoError = [], showSuggestions = False,
      savedTemps = Map.empty, recentSearches = [],
      quickLocations = [''Copenhagen'', ''Kyoto'', ''Berlin'', ''berlin''],
      extendedCache = Map.empty, extendedData = None, extendedStatus = ''idle'',
      extendedError = [], requestCooldowns = Map.empty, requestInFlight = Map.empty\<rparr>"

definition berlinBody :: body where
  "berlinBody =
     WeatherBody
       \<lparr>weatherSnapshot.location =
          \<lparr>locationView.name = QString ''Berlin'', locationView.country = ''Germany'',
           locationView.localtime = ''2023-11-14 23:13''\<rparr>,
        weatherSnapshot.current =
          \<lparr>currentView.temperature = Some 21.5, feelslike = None, currentView.humidity = None,
           wind_speed = None, currentView.wind_dir = None, pressure = None, visibility = None,
           precip = None, weather_descriptions = [], weather_icons = []\<rparr>,
        requestQuery = QString ''Berlin'',
        weatherSnapshot.fetchedAt = ''2023-11-14T22:13:20.000Z''\<rparr>"

definition berlinEntry :: cacheEntry where
  "berlinEntry = \<lparr>content = berlinBody, cachedAt = NumStamp 1700000000010\<rparr>"

text \<open>
  A session of the page, whose quick locations hold both \<open>Berlin\<close> and \<open>berlin\<close>. At
  1700000000000 the user picks Berlin; the answer arrives 10 ms later and is cached. Close
  to five minutes later, at 1700000300900, the user picks \<open>berlin\<close>, a different cache key
  with the same throttle key, which starts a request; this request fails 50 ms later.
\<close>

definition berlinCached :: appState where
  "berlinCached =
     fetchWeatherSettled sampleBrowser 1700000000010 ''Berlin'' (Received True berlinBody)
       (fst (fetchWeather sampleBrowser 1700000000000 ''Berlin'' False initialState))"

definition lowercaseInFlight :: appState where
  "lowercaseInFlight = fst (fetchWeather sampleBrowser 1700000300900 ''berlin'' False berlinCached)"

definition lowercaseFailed :: appState where
  "lowercaseFailed =
     fetchWeatherSettled sampleBrowser 1700000300950 ''berlin'' (Failed ''Failed to fetch'')
       lowercaseInFlight"

text \<open>A provider that answers the forecast request and the history request for
  2024-05-01 and cannot be reached for the one for 2024-05-02.\<close>

definition mixedProvider :: upstream where
  "mixedProvider u =
     (if address u = ''http://api.weatherapi.com/v1/forecast.json'' then Replied True threeDayPayload
      else if map_of (searchParams u) ''dt'' = Some ''2024-05-01'' then Replied True threeDayPayload
      else Unreachable)"

text \<open>A state whose extended-outlook cache holds an entry for Berlin cached at
  1700000000010, with a request for the same key in flight.\<close>

definition outlookEntry :: cacheEntry where
  "outlookEntry =
     \<lparr>content = ExtendedBody
        \<lparr>extendedOutlook.location =
           \<lparr>locationView.name = QString ''Berlin'', locationView.country = ''Germany'',
            locationView.localtime = ''2023-11-14 23:13''\<rparr>,
         history = [], extendedOutlook.forecast = [], historyError = [],
         forecastError = ''Forecast unavailable'',
         extendedOutlook.fetchedAt = ''2023-11-14T22:13:20.000Z''\<rparr>,
      cachedAt = NumStamp 1700000000010\<rparr>"

definition outlookInFlight :: appState where
  "outlookInFlight =
     initialState\<lparr>extendedCache := [''Berlin'' \<mapsto> outlookEntry],
                   requestInFlight := [''extended:berlin'' \<mapsto> True]\<rparr>"

section \<open>The rate limiter\<close>


lemma prune_keeps_live:
  assumes "fmlookup store key = Some e" and "\<not> jsGreater (Fin (of_int now)) (resetTime e)"
  shows "fmlookup (pruneRateLimitStore now store) key = Some e"
  using assms by (simp add: pruneRateLimitStore_def)

lemma prune_lookup_cases:
  "fmlookup (pruneRateLimitStore now store) key = fmlookup store key \<or>
   (fmlookup (pruneRateLimitStore now store) key = None \<and>
    (\<exists>e. fmlookup store key = Some e \<and> jsGreater (Fin (of_int now)) (resetTime e)))"
  by (auto simp: pruneRateLimitStore_def split: option.splits)

lemma rateLimit_opens_window:
  assumes "shouldRateLimit req"
    and "case fmlookup store (getClientIp req) of None \<Rightarrow> True
         | Some e \<Rightarrow> jsGreater (Fin (of_int now)) (resetTime e)"
  shows "rateLimit env now req store =
           (Next, fmupd (getClientIp req)
                    \<lparr>count = 1, resetTime = jsAdd (Fin (of_int now)) (rateLimitWindowMs env)\<rparr>
                    (pruneRateLimitStore now store))"
  using assms prune_lookup_cases [of now store "getClientIp req"]
  by (auto simp: rateLimit_def Let_def split: option.splits)

lemma rateLimit_counts:
  assumes "shouldRateLimit req"
    and "fmlookup store (getClientIp req) = Some e"
    and "\<not> jsGreater (Fin (of_int now)) (resetTime e)"
    and "\<not> jsGreaterEq (Fin (of_nat (count e))) (rateLimitMax env)"
  shows "rateLimit env now req store =
           (Next, fmupd (getClientIp req) (e\<lparr>count := count e + 1\<rparr>) (pruneRateLimitStore now store))"
  using assms prune_keeps_live [of store "getClientIp req" e now]
  by (simp add: rateLimit_def Let_def)

lemma rateLimit_rejects:
  assumes "shouldRateLimit req"
    and "fmlookup store (getClientIp req) = Some e"
    and "\<not> jsGreater (Fin (of_int now)) (resetTime e)"
    and "jsGreaterEq (Fin (of_nat (count e))) (rateLimitMax env)"
  shows "rateLimit env now req store =
           (Respond (Reply 429
              (Some (mathMax (Fin 1) (mathCeil (jsDiv1000 (jsSub (resetTime e) (Fin (of_int now)))))))
              (ErrorBody rateLimitMessage)),
            pruneRateLimitStore now store)"
  using assms prune_keeps_live [of store "getClientIp req" e now]
  by (simp add: rateLimit_def Let_def)

lemma rateLimit_other_client:
  assumes "\<not> fromClient key (now, req)"
    and "fmlookup store key = Some e"
    and "\<not> jsGreater (Fin (of_int now)) (resetTime e)"
  shows "fmlookup (snd (rateLimit env now req store)) key = Some e"
  using assms prune_keeps_live [of store key e now]
  by (auto simp: rateLimit_def Let_def fromClient_def split: option.splits)

lemma retry_after_finite:
  shows "mathMax (Fin 1) (mathCeil (jsDiv1000 (jsSub (Fin R) (Fin (of_int now))))) =
         Fin (of_int (max 1 \<lceil>(R - of_int now) / 1000\<rceil>))"
proof -
  define c where "c = \<lceil>(R - of_int now) / 1000\<rceil>"
  have "mathMax (Fin 1) (Fin (of_int c)) = Fin (of_int (max 1 c))"
  proof (cases "c \<le> 1")
    case True
    then have "max 1 c = 1" by (rule max_absorb1)
    moreover have "\<not> (1::real) < of_int c" using True by linarith
    ultimately show ?thesis by (simp add: mathMax_def)
  next
    case False
    then have "max 1 c = c" by (simp add: max_absorb2)
    moreover have "(1::real) < of_int c" using False by linarith
    ultimately show ?thesis by (simp add: mathMax_def)
  qed
  then show ?thesis by (simp add: jsSub_def c_def)
qed

lemma run_within_window:
  assumes "rateLimitMax env = Fin (of_nat m)"
    and "fmlookup store key = Some \<lparr>count = c, resetTime = Fin R\<rparr>"
    and "c \<le> m"
    and "\<forall>(t, r) \<in> set trace. of_int t \<le> R"
  shows "fmlookup (rateLimitRun env trace store) key =
           Some \<lparr>count = min (c + length (filter (fromClient key) trace)) m, resetTime = Fin R\<rparr>"
  using assms(2-)
proof (induction trace arbitrary: store c)
  case Nil
  then show ?case by simp
next
  case (Cons a trace)
  obtain now req where a: "a = (now, req)" by (cases a)
  let ?e = "\<lparr>count = c, resetTime = Fin R\<rparr>"
  have live: "\<not> jsGreater (Fin (of_int now)) (resetTime ?e)"
    using Cons.prems(3) a by (simp add: jsGreater_def)
  have rest: "\<forall>(t, r) \<in> set trace. of_int t \<le> R"
    using Cons.prems(3) by simp
  show ?case
  proof (cases "fromClient key (now, req)")
    case False
    have "fmlookup (snd (rateLimit env now req store)) key = Some ?e"
      by (rule rateLimit_other_client [OF False Cons.prems(1) live])
    from Cons.IH [OF this Cons.prems(2) rest] show ?thesis
      using False a by simp
  next
    case True
    then have gated: "shouldRateLimit req" and key: "getClientIp req = key"
      by (simp_all add: fromClient_def)
    show ?thesis
    proof (cases "c < m")
      case True
      have "\<not> jsGreaterEq (Fin (of_nat (count ?e))) (rateLimitMax env)"
        using True assms(1) by (simp add: jsGreaterEq_def)
      from rateLimit_counts [OF gated _ live this, where store = store] Cons.prems(1) key
      have "fmlookup (snd (rateLimit env now req store)) key = Some \<lparr>count = c + 1, resetTime = Fin R\<rparr>"
        by simp
      from Cons.IH [OF this _ rest] True show ?thesis
        using \<open>fromClient key (now, req)\<close> a by simp
    next
      case False
      then have cm: "c = m" using Cons.prems(2) by simp
      have "jsGreaterEq (Fin (of_nat (count ?e))) (rateLimitMax env)"
        using cm assms(1) by (simp add: jsGreaterEq_def)
      from rateLimit_rejects [OF gated _ live this, where store = store] Cons.prems(1) key
      have "fmlookup (snd (rateLimit env now req store)) key = Some ?e"
        using prune_keeps_live [OF Cons.prems(1) live] by simp
      from Cons.IH [OF this Cons.prems(2) rest] show ?thesis
        using \<open>fromClient key (now, req)\<close> a cm by simp
    qed
  qed
qed


lemma sampleRequest_fromClient: "fromClient ''203.0.113.7'' (t, sampleRequest)"
  by (simp add: fromClient_def shouldRateLimit_def getClientIp_def sampleRequest_def
      orElse_def orStr_def)

lemma defaultEnvironment_limits:
  "rateLimitWindowMs defaultEnvironment = Fin 60000" "rateLimitMax defaultEnvironment = Fin 5"
  by (simp_all add: rateLimitWindowMs_def rateLimitMax_def defaultEnvironment_def orNum_def
      mathMax_def)


text \<open>
  Claim C1. With a maximum of 5 and a window of 60000 ms, take any client key, a gated
  request \<open>first\<close> of that key that arrives at \<open>t0\<close> when the key has no entry or an
  entry whose reset time has passed, and any requests \<open>between\<close>, of this or of other
  clients, that arrive no later than \<open>t0 + 60000\<close>. Let \<open>n\<close> be the number of gated
  requests of the key so far, the first included. Then the first request is allowed; the
  stored count is \<open>min n 5\<close>, so it never exceeds the maximum, and the reset time is
  \<open>t0 + 60000\<close>; a further gated request of the key inside the window is allowed and
  counted when \<open>n < 5\<close> (it is one of the first five) and is answered with status 429, the
  rate-limit message and \<open>Retry-After = max 1 \<lceil>(t0 + 60000 - now) / 1000\<rceil>\<close>, at least 1,
  when \<open>5 \<le> n\<close> (it is the sixth or a later one), the count staying 5; and a request of
  the key that arrives strictly after the reset time is allowed and replaces the entry by
  count 1 and reset time \<open>now + 60000\<close>; the same holds in any store \<open>held\<close> in which
  the entry of the key has a reset time before \<open>now\<close>.
\<close>

theorem rateLimit_fixed_window:
  assumes window: "rateLimitWindowMs env = Fin 60000"
    and limit: "rateLimitMax env = Fin 5"
    and first: "fromClient key (t0, first)"
    and opens: "case fmlookup store key of None \<Rightarrow> True
                | Some e \<Rightarrow> jsGreater (Fin (of_int t0)) (resetTime e)"
    and within: "\<forall>(t, r) \<in> set between. t \<le> t0 + 60000"
    and req: "fromClient key (now, req)"
  shows "let n = Suc (length (filter (fromClient key) between));
             served = rateLimitRun env ((t0, first) # between) store;
             pruned = pruneRateLimitStore now served
         in fst (rateLimit env t0 first store) = Next
          \<and> fmlookup served key = Some \<lparr>count = min n 5, resetTime = Fin (of_int (t0 + 60000))\<rparr>
          \<and> (now \<le> t0 + 60000 \<and> n < 5 \<longrightarrow>
               rateLimit env now req served =
                 (Next, fmupd key \<lparr>count = n + 1, resetTime = Fin (of_int (t0 + 60000))\<rparr> pruned))
          \<and> (now \<le> t0 + 60000 \<and> 5 \<le> n \<longrightarrow>
               rateLimit env now req served =
                 (Respond (Reply 429
                    (Some (Fin (of_int (max 1 \<lceil>real_of_int (t0 + 60000 - now) / 1000\<rceil>))))
                    (ErrorBody rateLimitMessage)), pruned)
               \<and> fmlookup pruned key = Some \<lparr>count = 5, resetTime = Fin (of_int (t0 + 60000))\<rparr>)
          \<and> (t0 + 60000 < now \<longrightarrow>
               rateLimit env now req served =
                 (Next, fmupd key \<lparr>count = 1, resetTime = Fin (of_int (now + 60000))\<rparr> pruned))
          \<and> (fmlookup held key = Some e \<and> jsGreater (Fin (of_int now)) (resetTime e) \<longrightarrow>
               rateLimit env now req held =
                 (Next, fmupd key \<lparr>count = 1, resetTime = Fin (of_int (now + 60000))\<rparr>
                          (pruneRateLimitStore now held)))"
proof -
  define R :: real where "R = of_int (t0 + 60000)"
  define n where "n = Suc (length (filter (fromClient key) between))"
  define served where "served = rateLimitRun env ((t0, first) # between) store"
  define pruned where "pruned = pruneRateLimitStore now served"
  have gated0: "shouldRateLimit first" and key0: "getClientIp first = key"
    using first by (simp_all add: fromClient_def)
  have gated: "shouldRateLimit req" and key: "getClientIp req = key"
    using req by (simp_all add: fromClient_def)
  have step0: "rateLimit env t0 first store =
      (Next, fmupd key \<lparr>count = 1, resetTime = Fin R\<rparr> (pruneRateLimitStore t0 store))"
    using rateLimit_opens_window [OF gated0, where store = store and now = t0 and env = env] opens key0 window
    by (simp add: R_def)
  have limit': "rateLimitMax env = Fin (of_nat 5)" using limit by simp
  have within': "\<forall>(t, r) \<in> set between. of_int t \<le> R"
    using within by (auto simp: R_def)
  have start: "fmlookup (snd (rateLimit env t0 first store)) key = Some \<lparr>count = 1, resetTime = Fin R\<rparr>"
    by (simp add: step0)
  have inv: "fmlookup served key = Some \<lparr>count = min n 5, resetTime = Fin R\<rparr>"
    using run_within_window [OF limit' start _ within'] by (simp add: served_def n_def)
  let ?e = "\<lparr>count = min n 5, resetTime = Fin R\<rparr>"
  have allowed: "rateLimit env now req served =
      (Next, fmupd key \<lparr>count = n + 1, resetTime = Fin R\<rparr> pruned)"
    if "now \<le> t0 + 60000" and "n < 5"
  proof -
    have live: "\<not> jsGreater (Fin (of_int now)) (resetTime ?e)"
      using that(1) by (simp add: jsGreater_def R_def)
    have under: "\<not> jsGreaterEq (Fin (of_nat (count ?e))) (rateLimitMax env)"
      using that(2) limit by (simp add: jsGreaterEq_def)
    from rateLimit_counts [OF gated _ live under, where store = served] inv key that(2)
    show ?thesis by (simp add: pruned_def)
  qed
  have rejected: "rateLimit env now req served =
      (Respond (Reply 429 (Some (Fin (of_int (max 1 \<lceil>real_of_int (t0 + 60000 - now) / 1000\<rceil>))))
         (ErrorBody rateLimitMessage)), pruned)
      \<and> fmlookup pruned key = Some \<lparr>count = 5, resetTime = Fin R\<rparr>"
    if "now \<le> t0 + 60000" and "5 \<le> n"
  proof -
    have live: "\<not> jsGreater (Fin (of_int now)) (resetTime ?e)"
      using that(1) by (simp add: jsGreater_def R_def)
    have at_max: "jsGreaterEq (Fin (of_nat (count ?e))) (rateLimitMax env)"
      using that(2) limit by (simp add: jsGreaterEq_def)
    have "R - of_int now = real_of_int (t0 + 60000 - now)" by (simp add: R_def)
    with rateLimit_rejects [OF gated _ live at_max, where store = served] inv key
      retry_after_finite [of R now] prune_keeps_live [OF inv live] that(2)
    show ?thesis by (simp add: pruned_def)
  qed
  have reopened: "rateLimit env now req served =
      (Next, fmupd key \<lparr>count = 1, resetTime = Fin (of_int (now + 60000))\<rparr> pruned)"
    if "t0 + 60000 < now"
  proof -
    have "jsGreater (Fin (of_int now)) (resetTime ?e)"
      using that by (simp add: jsGreater_def R_def)
    with rateLimit_opens_window [OF gated, where store = served and now = now and env = env] inv key window
    show ?thesis by (simp add: pruned_def)
  qed
  have expired: "rateLimit env now req held =
      (Next, fmupd key \<lparr>count = 1, resetTime = Fin (of_int (now + 60000))\<rparr>
               (pruneRateLimitStore now held))"
    if "fmlookup held key = Some e" and "jsGreater (Fin (of_int now)) (resetTime e)"
    using rateLimit_opens_window [OF gated, where store = held and now = now and env = env]
      that key window
    by simp
  show ?thesis
    unfolding Let_def
    using step0 inv allowed rejected reopened expired
    by (simp add: n_def served_def pruned_def R_def)
qed


theorem rateLimit_fixed_window_witness:
  "fst (rateLimit defaultEnvironment 1900 sampleRequest
        (rateLimitRun defaultEnvironment
           [(0, sampleRequest), (500, sampleRequest), (1000, sampleRequest), (1500, sampleRequest)]
           fmempty)) = Next
   \<and> fst (rateLimit defaultEnvironment 2000 sampleRequest
        (rateLimitRun defaultEnvironment
           [(0, sampleRequest), (500, sampleRequest), (1000, sampleRequest), (1500, sampleRequest),
            (1900, sampleRequest)]
           fmempty)) =
     Respond (Reply 429 (Some (Fin 58)) (ErrorBody rateLimitMessage))
   \<and> fst (rateLimit defaultEnvironment 60001 sampleRequest
        (rateLimitRun defaultEnvironment
           [(0, sampleRequest), (500, sampleRequest), (1000, sampleRequest), (1500, sampleRequest),
            (1900, sampleRequest)]
           fmempty)) = Next
   \<and> fst (rateLimit defaultEnvironment 60001 sampleRequest
        (fmupd ''203.0.113.7'' \<lparr>count = 5, resetTime = Fin 60000\<rparr> fmempty)) = Next"
proof -
  note facts = sampleRequest_fromClient defaultEnvironment_limits Let_def
  have fifth: "fst (rateLimit defaultEnvironment 1900 sampleRequest
        (rateLimitRun defaultEnvironment
           [(0, sampleRequest), (500, sampleRequest), (1000, sampleRequest), (1500, sampleRequest)]
           fmempty)) = Next"
    using rateLimit_fixed_window [where env = defaultEnvironment and key = "''203.0.113.7''"
        and ?t0.0 = 0 and first = sampleRequest and store = fmempty
        and between = "[(500, sampleRequest), (1000, sampleRequest), (1500, sampleRequest)]"
        and now = 1900 and req = sampleRequest]
    by (simp add: facts)
  have sixth: "fst (rateLimit defaultEnvironment 2000 sampleRequest
        (rateLimitRun defaultEnvironment
           [(0, sampleRequest), (500, sampleRequest), (1000, sampleRequest), (1500, sampleRequest),
            (1900, sampleRequest)]
           fmempty)) =
     Respond (Reply 429 (Some (Fin 58)) (ErrorBody rateLimitMessage))"
    using rateLimit_fixed_window [where env = defaultEnvironment and key = "''203.0.113.7''"
        and ?t0.0 = 0 and first = sampleRequest and store = fmempty
        and between = "[(500, sampleRequest), (1000, sampleRequest), (1500, sampleRequest),
                        (1900, sampleRequest)]"
        and now = 2000 and req = sampleRequest]
    by (simp add: facts)
  have later: "fst (rateLimit defaultEnvironment 60001 sampleRequest
        (rateLimitRun defaultEnvironment
           [(0, sampleRequest), (500, sampleRequest), (1000, sampleRequest), (1500, sampleRequest),
            (1900, sampleRequest)]
           fmempty)) = Next"
    using rateLimit_fixed_window [where env = defaultEnvironment and key = "''203.0.113.7''"
        and ?t0.0 = 0 and first = sampleRequest and store = fmempty
        and between = "[(500, sampleRequest), (1000, sampleRequest), (1500, sampleRequest),
                        (1900, sampleRequest)]"
        and now = 60001 and req = sampleRequest]
    by (simp add: facts)
  have expired: "fst (rateLimit defaultEnvironment 60001 sampleRequest
        (fmupd ''203.0.113.7'' \<lparr>count = 5, resetTime = Fin 60000\<rparr> fmempty)) = Next"
    using rateLimit_fixed_window [where env = defaultEnvironment and key = "''203.0.113.7''"
        and ?t0.0 = 0 and first = sampleRequest and store = fmempty and between = "[]"
        and now = 60001 and req = sampleRequest
        and held = "fmupd ''203.0.113.7'' \<lparr>count = 5, resetTime = Fin 60000\<rparr> fmempty"
        and e = "\<lparr>count = 5, resetTime = Fin 60000\<rparr>"]
    by (simp add: facts jsGreater_def)
  from fifth sixth later expired show ?thesis by blast
qed






section \<open>The weather routes\<close>

lemma requestWeather_error_nonempty:
  "requestWeather provider u = ErrorResult e \<Longrightarrow> e \<noteq> []"
  by (auto simp: requestWeather_def orElse_def split: fetched.splits if_splits option.splits)

lemma requestWeather_fails_iff:
  "(\<exists>e. requestWeather provider u = ErrorResult e) \<longleftrightarrow>
   (provider u = Unreachable \<or> (\<exists>ok d. provider u = Replied ok d \<and> (\<not> ok \<or> payload.error d \<noteq> None)))"
  by (auto simp: requestWeather_def split: fetched.splits if_splits)

text \<open>
  A parameter given twice with empty values, \<open>?query=&query=\<close>, is the array of two empty
  strings: it is truthy, and the handler fetches with \<open>q\<close> set to a comma.
\<close>

lemma repeated_empty_query_fetched:
  assumes "queryParam req = Some (QArray [QString [], QString []])"
    and "WEATHERAPI_KEY env = Some accessKey" and "accessKey \<noteq> []"
  shows "snd (weatherHandler env clk provider req) = [currentUrl env accessKey '','']"
  using assms
  by (simp add: weatherHandler_def orQuery_def Let_def split: fetched.splits)

lemma firstDay_error [simp]: "firstDay (ErrorResult e) = None"
  by (simp add: firstDay_def forecastdayOf_def)


text \<open>
  Claim C2. Take a request to the extended route with a query and with the credential set.
  If the forecast exchange fails, because the provider cannot be reached, or answers with
  an HTTP error status, or answers with a payload that has an error object, then
  \<open>requestWeather\<close> returns a non-empty error message, the response is 502 with that
  message as its error, and only the forecast URL was fetched: the provider is arbitrary
  on the history URLs, so their outcome plays no part.
\<close>

theorem forecast_failure_fails_request:
  assumes "orQuery (queryParam req) (locationParam req) = Some query"
    and "truthyQuery (Some query)"
    and "WEATHERAPI_KEY env = Some accessKey" and "accessKey \<noteq> []"
    and "provider (forecastUrl env accessKey (queryText query)) = Unreachable
         \<or> provider (forecastUrl env accessKey (queryText query)) = Replied ok data
            \<and> (\<not> ok \<or> payload.error data \<noteq> None)"
  shows "\<exists>msg. requestWeather provider (forecastUrl env accessKey (queryText query)) = ErrorResult msg
           \<and> msg \<noteq> []
           \<and> extendedHandler env clk provider req =
               (Reply 502 None (ErrorBody msg), [forecastUrl env accessKey (queryText query)])"
proof -
  from assms(5) obtain msg
    where failed: "requestWeather provider (forecastUrl env accessKey (queryText query)) = ErrorResult msg"
    using requestWeather_fails_iff [of provider "forecastUrl env accessKey (queryText query)"] by blast
  then have nonempty: "msg \<noteq> []" by (rule requestWeather_error_nonempty)
  have "extendedHandler env clk provider req =
          (Reply 502 None (ErrorBody msg), [forecastUrl env accessKey (queryText query)])"
    using assms(1-4) failed nonempty by (simp add: extendedHandler_def Let_def orElse_def)
  with failed nonempty show ?thesis by blast
qed

theorem forecast_failure_fails_request_witness:
  "extendedHandler defaultEnvironment sampleClock (\<lambda>u. Replied True noMatchPayload) sampleRequest =
     (Reply 502 None (ErrorBody ''No matching location found.''),
      [forecastUrl defaultEnvironment ''secret'' ''Berlin''])"
  using forecast_failure_fails_request [where req = sampleRequest and query = "QString ''Berlin''"
      and env = defaultEnvironment and accessKey = "''secret''"
      and provider = "\<lambda>u. Replied True noMatchPayload" and clk = sampleClock
      and ok = True and data = noMatchPayload]
  by (simp add: sampleRequest_def defaultEnvironment_def noMatchPayload_def orQuery_def
      requestWeather_def orElse_def)



text \<open>
  Claim C3. Take a request to the extended route with a query and the credential set, for
  which the forecast request succeeds with \<open>fdata\<close>; \<open>yesterday\<close> and \<open>twoDaysAgo\<close> are the
  results of the history requests for one and for two days ago. The response is 200 and
  the three URLs are fetched in this order. Its \<open>forecast\<close> is the forecast result's
  \<open>forecastday\<close> without its first element, mapped by \<open>mapForecastDay\<close>, and its
  location comes from the forecast result. When both history requests fail, \<open>history\<close> is
  empty and \<open>historyError\<close> is the message of the first one, which is not empty. The days
  that were fetched appear in the order of the requests, yesterday before two days ago,
  and \<open>historyError\<close> is the message of the first request that failed, or empty when none
  did.
\<close>

theorem history_failures_merged:
  assumes "orQuery (queryParam req) (locationParam req) = Some query"
    and "truthyQuery (Some query)"
    and "WEATHERAPI_KEY env = Some accessKey" and "accessKey \<noteq> []"
    and forecast: "requestWeather provider (forecastUrl env accessKey (queryText query)) = DataResult fdata"
    and h1: "requestWeather provider (historyUrl env accessKey (queryText query) (isoDateDaysAgo clk 1)) = yesterday"
    and h2: "requestWeather provider (historyUrl env accessKey (queryText query) (isoDateDaysAgo clk 2)) = twoDaysAgo"
  shows "\<exists>out. extendedHandler env clk provider req =
           (Reply 200 None (ExtendedBody out),
            [forecastUrl env accessKey (queryText query),
             historyUrl env accessKey (queryText query) (isoDateDaysAgo clk 1),
             historyUrl env accessKey (queryText query) (isoDateDaysAgo clk 2)])
         \<and> extendedOutlook.forecast out =
             (case Option.bind (payload.forecast fdata) forecastday of
                None \<Rightarrow> []
              | Some days \<Rightarrow> map mapForecastDay (drop 1 days))
         \<and> extendedOutlook.location out = locationOf (Some fdata) query
         \<and> (yesterday = ErrorResult e1 \<and> twoDaysAgo = ErrorResult e2 \<longrightarrow>
               history out = [] \<and> historyError out = e1 \<and> e1 \<noteq> [])
         \<and> (firstDay yesterday = Some d1 \<and> firstDay twoDaysAgo = Some d2 \<longrightarrow>
               history out = [mapHistoryDay (Some d1), mapHistoryDay (Some d2)])
         \<and> (firstDay yesterday = Some d1 \<and> firstDay twoDaysAgo = None \<longrightarrow>
               history out = [mapHistoryDay (Some d1)])
         \<and> (firstDay yesterday = None \<and> firstDay twoDaysAgo = Some d2 \<longrightarrow>
               history out = [mapHistoryDay (Some d2)])
         \<and> (firstDay yesterday = None \<and> firstDay twoDaysAgo = None \<longrightarrow> history out = [])
         \<and> (yesterday = ErrorResult e1 \<longrightarrow> historyError out = e1)
         \<and> (yesterday = DataResult y1 \<and> twoDaysAgo = ErrorResult e2 \<longrightarrow> historyError out = e2)
         \<and> (yesterday = DataResult y1 \<and> twoDaysAgo = DataResult y2 \<longrightarrow> historyError out = [])"
proof -
  have e1: "e \<noteq> []" if "yesterday = ErrorResult e" for e
    using h1 that requestWeather_error_nonempty by blast
  have e2: "e \<noteq> []" if "twoDaysAgo = ErrorResult e" for e
    using h2 that requestWeather_error_nonempty by blast
  show ?thesis
    using assms(1-4) forecast h1 h2 e1 e2
    by (auto simp: extendedHandler_def Let_def orElse_def forecastdayOf_def
        List.map_filter_simps split: option.splits)
qed

theorem history_failures_merged_witness:
  "(\<exists>out. extendedHandler defaultEnvironment sampleClock forecastOnlyProvider sampleRequest =
           (Reply 200 None (ExtendedBody out),
            [forecastUrl defaultEnvironment ''secret'' ''Berlin'',
             historyUrl defaultEnvironment ''secret'' ''Berlin'' ''2024-05-02'',
             historyUrl defaultEnvironment ''secret'' ''Berlin'' ''2024-05-01''])
      \<and> history out = []
      \<and> historyError out = ''Unable to reach weather service''
      \<and> map forecastDayView.date (extendedOutlook.forecast out) = [''2024-05-04'', ''2024-05-05''])
   \<and> (\<exists>out. fst (extendedHandler defaultEnvironment sampleClock mixedProvider sampleRequest) =
           Reply 200 None (ExtendedBody out)
      \<and> map historyDayView.date (history out) = [''2024-05-03'']
      \<and> historyError out = ''Unable to reach weather service'')"
proof -
  have f: "requestWeather forecastOnlyProvider
      (forecastUrl defaultEnvironment ''secret'' (queryText (QString ''Berlin''))) =
      DataResult threeDayPayload"
    by (simp add: requestWeather_def forecastOnlyProvider_def forecastUrl_def buildWeatherUrl_def
        weatherApiBaseUrl_def defaultEnvironment_def orElse_def threeDayPayload_def)
  have h: "requestWeather forecastOnlyProvider
      (historyUrl defaultEnvironment ''secret'' (queryText (QString ''Berlin'')) d) =
      ErrorResult ''Unable to reach weather service''" for d
    by (simp add: requestWeather_def forecastOnlyProvider_def historyUrl_def buildWeatherUrl_def
        weatherApiBaseUrl_def defaultEnvironment_def orElse_def)
  have q: "orQuery (queryParam sampleRequest) (locationParam sampleRequest) =
      Some (QString ''Berlin'')"
    by (simp add: sampleRequest_def orQuery_def)
  have k: "WEATHERAPI_KEY defaultEnvironment = Some ''secret''"
    by (simp add: defaultEnvironment_def)
  from history_failures_merged [OF q _ k _ f h h, where clk = sampleClock
      and ?e1.0 = "''Unable to reach weather service''"
      and ?e2.0 = "''Unable to reach weather service''"]
  have both: "\<exists>out. extendedHandler defaultEnvironment sampleClock forecastOnlyProvider sampleRequest =
           (Reply 200 None (ExtendedBody out),
            [forecastUrl defaultEnvironment ''secret'' ''Berlin'',
             historyUrl defaultEnvironment ''secret'' ''Berlin'' ''2024-05-02'',
             historyUrl defaultEnvironment ''secret'' ''Berlin'' ''2024-05-01''])
      \<and> history out = []
      \<and> historyError out = ''Unable to reach weather service''
      \<and> map forecastDayView.date (extendedOutlook.forecast out) = [''2024-05-04'', ''2024-05-05'']"
    by (auto simp: sampleClock_def threeDayPayload_def mapForecastDay_def orElse_def)
  have mf: "requestWeather mixedProvider
      (forecastUrl defaultEnvironment ''secret'' (queryText (QString ''Berlin''))) =
      DataResult threeDayPayload"
    by (simp add: requestWeather_def mixedProvider_def forecastUrl_def buildWeatherUrl_def
        weatherApiBaseUrl_def defaultEnvironment_def orElse_def threeDayPayload_def)
  have m1: "requestWeather mixedProvider
      (historyUrl defaultEnvironment ''secret'' (queryText (QString ''Berlin''))
         (isoDateDaysAgo sampleClock 1)) =
      ErrorResult ''Unable to reach weather service''"
    by (simp add: requestWeather_def mixedProvider_def historyUrl_def buildWeatherUrl_def
        weatherApiBaseUrl_def defaultEnvironment_def orElse_def sampleClock_def)
  have m2: "requestWeather mixedProvider
      (historyUrl defaultEnvironment ''secret'' (queryText (QString ''Berlin''))
         (isoDateDaysAgo sampleClock 2)) =
      DataResult threeDayPayload"
    by (simp add: requestWeather_def mixedProvider_def historyUrl_def buildWeatherUrl_def
        weatherApiBaseUrl_def defaultEnvironment_def orElse_def sampleClock_def
        threeDayPayload_def)
  have d2: "firstDay (DataResult threeDayPayload) =
      Some \<lparr>apiForecastDay.date = Some ''2024-05-03'', day = None\<rparr>"
    by (simp add: firstDay_def forecastdayOf_def threeDayPayload_def)
  from history_failures_merged [OF q _ k _ mf m1 m2,
      where ?e1.0 = "''Unable to reach weather service''"
      and ?d2.0 = "\<lparr>apiForecastDay.date = Some ''2024-05-03'', day = None\<rparr>"]
  have mixed: "\<exists>out. fst (extendedHandler defaultEnvironment sampleClock mixedProvider sampleRequest) =
           Reply 200 None (ExtendedBody out)
      \<and> map historyDayView.date (history out) = [''2024-05-03'']
      \<and> historyError out = ''Unable to reach weather service''"
    by (auto simp: d2 mapHistoryDay_def orElse_def)
  from both mixed show ?thesis by blast
qed


text \<open>
  Claim C7, as stated, fails: the handlers read \<open>req.query.query || req.query.location\<close>,
  so a request without a \<open>query\<close> parameter but with \<open>location=Berlin\<close> is served. Both
  routes fetch from the provider and answer 200.
\<close>

theorem missing_query_counterexample:
  "queryParam locationOnlyRequest = None
   \<and> replyStatus (fst (weatherHandler defaultEnvironment sampleClock (\<lambda>u. Replied True emptyPayload)
                          locationOnlyRequest)) = 200
   \<and> snd (weatherHandler defaultEnvironment sampleClock (\<lambda>u. Replied True emptyPayload)
            locationOnlyRequest) =
       [\<lparr>address = ''http://api.weatherapi.com/v1/current.json'',
         searchParams = [(''key'', ''secret''), (''q'', ''Berlin''), (''aqi'', ''no'')]\<rparr>]
   \<and> replyStatus (fst (extendedHandler defaultEnvironment sampleClock (\<lambda>u. Replied True emptyPayload)
                          locationOnlyRequest)) = 200
   \<and> length (snd (extendedHandler defaultEnvironment sampleClock (\<lambda>u. Replied True emptyPayload)
            locationOnlyRequest)) = 3"
  by (simp add: weatherHandler_def extendedHandler_def locationOnlyRequest_def
      defaultEnvironment_def emptyPayload_def orQuery_def currentUrl_def forecastUrl_def
      buildWeatherUrl_def weatherApiBaseUrl_def orElse_def requestWeather_def Let_def)

text \<open>
  Claim C7, amended. A request that reaches a weather handler with neither a \<open>query\<close> nor
  a \<open>location\<close> parameter in its query string is answered with status 400 and an error
  body, and nothing is fetched from the provider.
\<close>

theorem missing_query_rejected:
  assumes "queryParam req = None" and "locationParam req = None"
  shows "weatherHandler env clk provider req =
           (Reply 400 None (ErrorBody ''Missing query parameter''), [])
       \<and> extendedHandler env clk provider req =
           (Reply 400 None (ErrorBody ''Missing query parameter''), [])"
  using assms
  by (simp add: weatherHandler_def extendedHandler_def orQuery_def missingQuery_def)

theorem missing_query_rejected_witness:
  "weatherHandler defaultEnvironment sampleClock (\<lambda>u. Replied True emptyPayload) noQueryRequest =
     (Reply 400 None (ErrorBody ''Missing query parameter''), [])
   \<and> extendedHandler defaultEnvironment sampleClock (\<lambda>u. Replied True emptyPayload) noQueryRequest =
     (Reply 400 None (ErrorBody ''Missing query parameter''), [])"
  using missing_query_rejected [where req = noQueryRequest and env = defaultEnvironment
      and clk = sampleClock and provider = "\<lambda>u. Replied True emptyPayload"]
  by (simp add: noQueryRequest_def)

text \<open>
  Claim C8, as stated, fails when the provider's error object carries an empty message:
  the message is present, and the response carries the generic text instead of it.
\<close>

theorem provider_error_counterexample:
  "payload.error emptyMessagePayload = Some \<lparr>message = Some []\<rparr>
   \<and> fst (weatherHandler defaultEnvironment sampleClock (\<lambda>u. Replied True emptyMessagePayload)
            sampleRequest) =
       Reply 502 None (ErrorBody ''Weather service error'')"
  by (simp add: weatherHandler_def sampleRequest_def defaultEnvironment_def
      emptyMessagePayload_def orQuery_def orElse_def Let_def)

text \<open>
  Claim C8, amended. When the exchange of \<open>GET /api/weather\<close> returns a payload with an
  error object, whatever the HTTP status, the response is 502 and its error is the
  provider's message when that is present and not empty, and \<open>Weather service error\<close>
  otherwise. Only the one URL was fetched.
\<close>

theorem provider_error_forwarded:
  assumes "orQuery (queryParam req) (locationParam req) = Some query"
    and "truthyQuery (Some query)"
    and "WEATHERAPI_KEY env = Some accessKey" and "accessKey \<noteq> []"
    and "provider (currentUrl env accessKey (queryText query)) = Replied ok data"
    and "payload.error data = Some e"
  shows "weatherHandler env clk provider req =
           (Reply 502 None
              (ErrorBody (case message e of
                            None \<Rightarrow> ''Weather service error''
                          | Some m \<Rightarrow> if m = [] then ''Weather service error'' else m)),
            [currentUrl env accessKey (queryText query)])"
  using assms by (simp add: weatherHandler_def Let_def orElse_def)

theorem provider_error_forwarded_witness:
  "weatherHandler defaultEnvironment sampleClock (\<lambda>u. Replied True noMatchPayload) sampleRequest =
     (Reply 502 None (ErrorBody ''No matching location found.''),
      [currentUrl defaultEnvironment ''secret'' ''Berlin''])"
  using provider_error_forwarded [where req = sampleRequest and query = "QString ''Berlin''"
      and env = defaultEnvironment and accessKey = "''secret''"
      and provider = "\<lambda>u. Replied True noMatchPayload" and ok = True and data = noMatchPayload
      and e = "\<lparr>message = Some ''No matching location found.''\<rparr>" and clk = sampleClock]
  by (simp add: sampleRequest_def defaultEnvironment_def noMatchPayload_def orQuery_def)



section \<open>The client cache and throttle\<close>

lemma addRecentSearch_fields [simp]:
  "weatherCache (addRecentSearch v st) = weatherCache st"
  "weather (addRecentSearch v st) = weather st"
  "status (addRecentSearch v st) = status st"
  "requestCooldowns (addRecentSearch v st) = requestCooldowns st"
  "requestInFlight (addRecentSearch v st) = requestInFlight st"
  by (simp_all add: addRecentSearch_def Let_def)

lemma recordSavedTemp_fields [simp]:
  "weatherCache (recordSavedTemp b now loc data st) = weatherCache st"
  "weather (recordSavedTemp b now loc data st) = weather st"
  "status (recordSavedTemp b now loc data st) = status st"
  "requestCooldowns (recordSavedTemp b now loc data st) = requestCooldowns st"
  "requestInFlight (recordSavedTemp b now loc data st) = requestInFlight st"
  by (simp_all add: recordSavedTemp_def Let_def split: option.splits)

lemma serveCachedWeather_fields [simp]:
  "weatherCache (serveCachedWeather b now cleaned cached st) = weatherCache st"
  "requestCooldowns (serveCachedWeather b now cleaned cached st) = requestCooldowns st"
  "requestInFlight (serveCachedWeather b now cleaned cached st) = requestInFlight st"
  "weather (serveCachedWeather b now cleaned (Some c) st) = Some c"
  "status (serveCachedWeather b now cleaned (Some c) st) = ''ready''"
  "serveCachedWeather b now cleaned None st = st"
  by (simp_all add: serveCachedWeather_def split: option.splits)

lemma serveCachedExtended_fields [simp]:
  "extendedCache (serveCachedExtended cached st) = extendedCache st"
  "requestCooldowns (serveCachedExtended cached st) = requestCooldowns st"
  "requestInFlight (serveCachedExtended cached st) = requestInFlight st"
  "extendedData (serveCachedExtended (Some c) st) = Some c"
  "extendedStatus (serveCachedExtended (Some c) st) = ''ready''"
  "serveCachedExtended None st = st"
  by (simp_all add: serveCachedExtended_def split: option.splits)

lemma shouldThrottle_fields [simp]:
  "weatherCache (snd (shouldThrottle b now key force st)) = weatherCache st"
  "weather (snd (shouldThrottle b now key force st)) = weather st"
  "status (snd (shouldThrottle b now key force st)) = status st"
  "extendedCache (snd (shouldThrottle b now key force st)) = extendedCache st"
  "extendedData (snd (shouldThrottle b now key force st)) = extendedData st"
  "extendedStatus (snd (shouldThrottle b now key force st)) = extendedStatus st"
  "requestInFlight (snd (shouldThrottle b now key force st)) = requestInFlight st"
  by (simp_all add: shouldThrottle_def Let_def)

lemma shouldThrottle_forced [simp]: "shouldThrottle b now key True st = (False, st)"
  by (simp add: shouldThrottle_def)

lemma shouldThrottle_frame:
  "fst (shouldThrottle b now key force
          (st\<lparr>geoError := g, showSuggestions := sh, activeLocation := a\<rparr>)) =
   fst (shouldThrottle b now key force st)"
  "fst (shouldThrottle b now key force (st\<lparr>weatherCache := wc\<rparr>)) =
   fst (shouldThrottle b now key force st)"
  "fst (shouldThrottle b now key force (st\<lparr>extendedCache := xc\<rparr>)) =
   fst (shouldThrottle b now key force st)"
  by (simp_all add: shouldThrottle_def Let_def)

lemma isInFlight_frame:
  "isInFlight (st\<lparr>geoError := g, showSuggestions := sh, activeLocation := a\<rparr>) key = isInFlight st key"
  "isInFlight (st\<lparr>weatherCache := wc\<rparr>) key = isInFlight st key"
  "isInFlight (st\<lparr>extendedCache := xc\<rparr>) key = isInFlight st key"
  by (simp_all add: isInFlight_def)


lemma sample_keys:
  "trim ''Berlin'' = ''Berlin''" "trim ''berlin'' = ''berlin''"
  "toLowerCase ''Berlin'' = ''berlin''" "toLowerCase ''berlin'' = ''berlin''"
  by (simp_all add: trim_def isSpace_def toLowerCase_def lowerChar_def)

lemma sampleBrowser_limits:
  "cacheTtlMs sampleBrowser = Fin 300000" "throttleMs sampleBrowser = Fin 1200"
  by (simp_all add: cacheTtlMs_def throttleMs_def sampleBrowser_def orNum_def)

lemma berlinEntry_freshness:
  "isCacheFresh sampleBrowser now berlinEntry \<longleftrightarrow> now < 1700000300010"
  by (simp add: isCacheFresh_def parseCachedAt_def berlinEntry_def sampleBrowser_limits
      jsSub_def Let_def)

lemma first_search:
  "snd (fetchWeather sampleBrowser 1700000000000 ''Berlin'' False initialState) = Some ''Berlin''"
  "requestCooldowns (fst (fetchWeather sampleBrowser 1700000000000 ''Berlin'' False initialState))
     ''weather:berlin'' = Some 1700000000000"
  "requestInFlight (fst (fetchWeather sampleBrowser 1700000000000 ''Berlin'' False initialState))
     ''weather:berlin'' = Some True"
  "weatherCache (fst (fetchWeather sampleBrowser 1700000000000 ''Berlin'' False initialState)) =
     Map.empty"
  by (simp_all add: fetchWeather_def sample_keys initialState_def isInFlight_def
      shouldThrottle_def sampleBrowser_limits markRequestStart_def Let_def)

lemma berlinCached_facts:
  "weatherCache berlinCached ''Berlin'' = Some berlinEntry"
  "weatherCache berlinCached ''berlin'' = None"
  "requestCooldowns berlinCached ''weather:berlin'' = Some 1700000000000"
  "requestInFlight berlinCached ''weather:berlin'' = None"
  "weather berlinCached = Some berlinEntry"
  "status berlinCached = ''ready''"
  by (simp_all add: berlinCached_def fetchWeatherSettled_def sample_keys first_search
      markRequestEnd_def berlinEntry_def berlinBody_def Let_def)

lemma lowercaseInFlight_facts:
  "weatherCache lowercaseInFlight ''Berlin'' = Some berlinEntry"
  "requestCooldowns lowercaseInFlight ''weather:berlin'' = Some 1700000300900"
  "requestInFlight lowercaseInFlight ''weather:berlin'' = Some True"
  "weather lowercaseInFlight = Some berlinEntry"
  "status lowercaseInFlight = ''loading''"
  by (simp_all add: lowercaseInFlight_def fetchWeather_def sample_keys berlinCached_facts
      isInFlight_def shouldThrottle_def sampleBrowser_limits markRequestStart_def Let_def)

lemma lowercaseFailed_facts:
  "weatherCache lowercaseFailed ''Berlin'' = Some berlinEntry"
  "requestCooldowns lowercaseFailed ''weather:berlin'' = Some 1700000300900"
  "requestInFlight lowercaseFailed ''weather:berlin'' = None"
  "weather lowercaseFailed = Some berlinEntry"
  "status lowercaseFailed = ''error''"
  by (simp_all add: lowercaseFailed_def fetchWeatherSettled_def sample_keys
      lowercaseInFlight_facts markRequestEnd_def Let_def)

lemma numeric_stamp_fresh:
  assumes "cachedAt c = NumStamp T" and "T \<noteq> 0" and "cacheTtlMs b = Fin ttl"
  shows "isCacheFresh b now c \<longleftrightarrow> of_int now - T < ttl"
  using assms by (simp add: isCacheFresh_def parseCachedAt_def jsSub_def Let_def)

lemma fetchWeather_issues:
  assumes "fetchWeather b t loc False st = (st', Some q)"
  shows "requestCooldowns st' (''weather:'' @ toLowerCase (trim loc)) = Some t"
    and "requestInFlight st' (''weather:'' @ toLowerCase (trim loc)) = Some True"
    and "q = trim loc"
  using assms
  by (auto simp: fetchWeather_def Let_def split_beta shouldThrottle_def markRequestStart_def
      split: if_splits)

lemma fetchWeatherSettled_cooldowns [simp]:
  "requestCooldowns (fetchWeatherSettled b now loc result st) = requestCooldowns st"
  by (simp add: fetchWeatherSettled_def Let_def markRequestEnd_def split: received.splits)

lemma fetchWeather_throttled:
  assumes "throttleMs b = Fin thr"
    and "requestCooldowns st (''weather:'' @ toLowerCase (trim loc)) = Some t"
    and "real_of_int (now - t) < thr"
  shows "snd (fetchWeather b now loc False st) = None"
  using assms
  by (simp add: fetchWeather_def Let_def split_beta shouldThrottle_def split: option.splits)

lemma fetchWeather_requests_iff:
  "snd (fetchWeather b now loc force s) = Some (trim loc) \<longleftrightarrow>
     trim loc \<noteq> []
     \<and> \<not> (\<not> force \<and> (case weatherCache s (trim loc) of
                          None \<Rightarrow> False
                        | Some c \<Rightarrow> isCacheFresh b now c))
     \<and> \<not> isInFlight s (''weather:'' @ toLowerCase (trim loc))
     \<and> \<not> fst (shouldThrottle b now (''weather:'' @ toLowerCase (trim loc)) force s)"
  by (simp add: fetchWeather_def Let_def split_beta isInFlight_frame shouldThrottle_frame
      split: option.splits)


text \<open>
  Claim C4, as stated, fails. In the sample session the entry for Berlin is older than the
  time-to-live when the user asks for Berlin again while the request for \<open>berlin\<close> is in
  flight. The call is suppressed, issues no request, and displays the stale entry with
  status \<open>ready\<close>: the suppressed branch serves the value \<open>cached\<close> that was read before
  the eviction, without asking whether it is fresh.
\<close>

theorem stale_served_counterexample:
  "weatherCache lowercaseInFlight ''Berlin'' = Some berlinEntry
   \<and> cachedAt berlinEntry = NumStamp 1700000000010
   \<and> (1700000301011 :: int) - 1700000000010 \<ge> 300000
   \<and> cacheTtlMs sampleBrowser = Fin 300000
   \<and> isInFlight lowercaseInFlight ''weather:berlin''
   \<and> snd (fetchWeather sampleBrowser 1700000301011 ''Berlin'' False lowercaseInFlight) = None
   \<and> weather (fst (fetchWeather sampleBrowser 1700000301011 ''Berlin'' False lowercaseInFlight)) =
       Some berlinEntry
   \<and> status lowercaseInFlight = ''loading''
   \<and> status (fst (fetchWeather sampleBrowser 1700000301011 ''Berlin'' False lowercaseInFlight)) =
       ''ready''"
  by (simp add: fetchWeather_def sample_keys lowercaseInFlight_facts berlinEntry_freshness
      isInFlight_def isInFlight_frame sampleBrowser_limits Let_def)
     (simp add: berlinEntry_def)


text \<open>
  Claim C4, amended. When \<open>fetchWeather\<close> or \<open>fetchExtended\<close> finds an entry that is not
  fresh, the entry is evicted from the cache. A call that is not suppressed issues a
  request, sets the status to \<open>loading\<close> and leaves the displayed data as it was. A call
  that is suppressed, by a request in flight for its key or by the throttle, issues no
  request and displays the entry that it read, with status \<open>ready\<close>.
\<close>

theorem stale_entry_evicted:
  assumes "trim loc = cleaned" and "cleaned \<noteq> []"
  shows "(weatherCache st cleaned = Some c \<and> \<not> isCacheFresh b now c \<longrightarrow>
          (let st' = fst (fetchWeather b now loc force st);
               request = snd (fetchWeather b now loc force st);
               key = ''weather:'' @ toLowerCase cleaned;
               suppressed = (isInFlight st key \<or> fst (shouldThrottle b now key force st))
           in weatherCache st' cleaned = None
            \<and> (suppressed \<longrightarrow> request = None \<and> weather st' = Some c \<and> status st' = ''ready'')
            \<and> (\<not> suppressed \<longrightarrow>
                 request = Some cleaned \<and> weather st' = weather st \<and> status st' = ''loading'')))
       \<and> (extendedCache st cleaned = Some c \<and> \<not> isCacheFresh b now c \<longrightarrow>
          (let st' = fst (fetchExtended b now loc force st);
               request = snd (fetchExtended b now loc force st);
               key = ''extended:'' @ toLowerCase cleaned;
               suppressed = (isInFlight st key \<or> fst (shouldThrottle b now key force st))
           in extendedCache st' cleaned = None
            \<and> (suppressed \<longrightarrow>
                 request = None \<and> extendedData st' = Some c \<and> extendedStatus st' = ''ready'')
            \<and> (\<not> suppressed \<longrightarrow>
                 request = Some cleaned \<and> extendedData st' = extendedData st
                 \<and> extendedStatus st' = ''loading'')))"
proof (intro conjI impI)
  assume stale: "weatherCache st cleaned = Some c \<and> \<not> isCacheFresh b now c"
  show "let st' = fst (fetchWeather b now loc force st);
            request = snd (fetchWeather b now loc force st);
            key = ''weather:'' @ toLowerCase cleaned;
            suppressed = (isInFlight st key \<or> fst (shouldThrottle b now key force st))
        in weatherCache st' cleaned = None
         \<and> (suppressed \<longrightarrow> request = None \<and> weather st' = Some c \<and> status st' = ''ready'')
         \<and> (\<not> suppressed \<longrightarrow>
              request = Some cleaned \<and> weather st' = weather st \<and> status st' = ''loading'')"
    using assms stale
    by (simp add: fetchWeather_def Let_def split_beta isInFlight_frame shouldThrottle_frame
        markRequestStart_def)
next
  assume stale: "extendedCache st cleaned = Some c \<and> \<not> isCacheFresh b now c"
  show "let st' = fst (fetchExtended b now loc force st);
            request = snd (fetchExtended b now loc force st);
            key = ''extended:'' @ toLowerCase cleaned;
            suppressed = (isInFlight st key \<or> fst (shouldThrottle b now key force st))
        in extendedCache st' cleaned = None
         \<and> (suppressed \<longrightarrow>
              request = None \<and> extendedData st' = Some c \<and> extendedStatus st' = ''ready'')
         \<and> (\<not> suppressed \<longrightarrow>
              request = Some cleaned \<and> extendedData st' = extendedData st
              \<and> extendedStatus st' = ''loading'')"
    using assms stale
    by (simp add: fetchExtended_def Let_def split_beta isInFlight_frame shouldThrottle_frame
        markRequestStart_def)
qed


theorem stale_entry_evicted_witness:
  "weatherCache (fst (fetchWeather sampleBrowser 1700000301011 ''Berlin'' False lowercaseFailed))
     ''Berlin'' = None
   \<and> weather (fst (fetchWeather sampleBrowser 1700000301011 ''Berlin'' False lowercaseFailed)) =
       Some berlinEntry
   \<and> extendedCache (fst (fetchExtended sampleBrowser 1700000301011 ''Berlin'' False outlookInFlight))
       ''Berlin'' = None
   \<and> extendedData (fst (fetchExtended sampleBrowser 1700000301011 ''Berlin'' False outlookInFlight)) =
       Some outlookEntry"
proof -
  have stale: "\<not> isCacheFresh sampleBrowser 1700000301011 berlinEntry"
    by (simp add: berlinEntry_freshness)
  have staleOutlook: "\<not> isCacheFresh sampleBrowser 1700000301011 outlookEntry"
    by (simp add: isCacheFresh_def parseCachedAt_def outlookEntry_def sampleBrowser_limits
        jsSub_def Let_def)
  have w: "weatherCache (fst (fetchWeather sampleBrowser 1700000301011 ''Berlin'' False lowercaseFailed))
        ''Berlin'' = None
      \<and> weather (fst (fetchWeather sampleBrowser 1700000301011 ''Berlin'' False lowercaseFailed)) =
          Some berlinEntry"
    using stale_entry_evicted [OF sample_keys(1), where st = lowercaseFailed and c = berlinEntry
        and b = sampleBrowser and now = 1700000301011 and force = False] stale
    by (simp add: lowercaseFailed_facts sample_keys shouldThrottle_def sampleBrowser_limits
        Let_def)
  have x: "extendedCache (fst (fetchExtended sampleBrowser 1700000301011 ''Berlin'' False outlookInFlight))
        ''Berlin'' = None
      \<and> extendedData (fst (fetchExtended sampleBrowser 1700000301011 ''Berlin'' False outlookInFlight)) =
          Some outlookEntry"
    using stale_entry_evicted [OF sample_keys(1), where st = outlookInFlight and c = outlookEntry
        and b = sampleBrowser and now = 1700000301011 and force = False] staleOutlook
    by (simp add: outlookInFlight_def sample_keys isInFlight_def Let_def)
  from w x show ?thesis by blast
qed


text \<open>
  Claim C5, as stated, fails in its second half. In the sample session the request for
  \<open>berlin\<close> has failed, so nothing is in flight; 111 ms after it started, the entry for
  Berlin is older than the time-to-live, and a call for Berlin that is not forced issues
  no request, because the throttle for the shared key \<open>weather:berlin\<close> has not elapsed.
\<close>

theorem stale_throttled_counterexample:
  "weatherCache lowercaseFailed ''Berlin'' = Some berlinEntry
   \<and> cachedAt berlinEntry = NumStamp 1700000000010
   \<and> (1700000301011 :: int) - 1700000000010 \<ge> 300000
   \<and> cacheTtlMs sampleBrowser = Fin 300000
   \<and> \<not> isInFlight lowercaseFailed ''weather:berlin''
   \<and> snd (fetchWeather sampleBrowser 1700000301011 ''Berlin'' False lowercaseFailed) = None"
  by (simp add: fetchWeather_def sample_keys lowercaseFailed_facts berlinEntry_freshness
      isInFlight_def shouldThrottle_def sampleBrowser_limits Let_def)
     (simp add: berlinEntry_def)



text \<open>
  Claim C5, amended. Take an entry of the weather cache that was cached at \<open>T\<close>, a number
  other than 0, and a time-to-live \<open>ttl\<close>. A call of \<open>fetchWeather\<close> for its key that is not
  forced and comes at an age below \<open>ttl\<close> serves the entry: no request, status \<open>ready\<close>,
  and the cache, the cooldowns and the in-flight flags are untouched. At an age of \<open>ttl\<close>
  or more the entry is evicted, and a request is issued unless one is in flight for the
  key or the throttle for the key has not elapsed.
\<close>

theorem cache_ttl_boundary:
  assumes "trim loc = cleaned" and "cleaned \<noteq> []"
    and "weatherCache st cleaned = Some c"
    and "cachedAt c = NumStamp T" and "T \<noteq> 0"
    and "cacheTtlMs b = Fin ttl"
  shows "(of_int now - T < ttl \<longrightarrow>
            fetchWeather b now loc False st =
              (serveCachedWeather b now cleaned (Some c)
                 (st\<lparr>geoError := [], showSuggestions := False, activeLocation := cleaned\<rparr>), None)
            \<and> (let st' = fst (fetchWeather b now loc False st)
               in weather st' = Some c \<and> status st' = ''ready''
                \<and> weatherCache st' = weatherCache st
                \<and> requestCooldowns st' = requestCooldowns st
                \<and> requestInFlight st' = requestInFlight st))
       \<and> (ttl \<le> of_int now - T \<longrightarrow>
            weatherCache (fst (fetchWeather b now loc False st)) cleaned = None
            \<and> snd (fetchWeather b now loc False st) =
                (if isInFlight st (''weather:'' @ toLowerCase cleaned)
                    \<or> fst (shouldThrottle b now (''weather:'' @ toLowerCase cleaned) False st)
                 then None else Some cleaned))"
proof (intro conjI impI)
  assume "of_int now - T < ttl"
  then have fresh: "isCacheFresh b now c"
    using numeric_stamp_fresh [OF assms(4-6)] by simp
  show "fetchWeather b now loc False st =
          (serveCachedWeather b now cleaned (Some c)
             (st\<lparr>geoError := [], showSuggestions := False, activeLocation := cleaned\<rparr>), None)"
    using assms(1-3) fresh by (simp add: fetchWeather_def Let_def)
  then show "let st' = fst (fetchWeather b now loc False st)
        in weather st' = Some c \<and> status st' = ''ready''
         \<and> weatherCache st' = weatherCache st
         \<and> requestCooldowns st' = requestCooldowns st
         \<and> requestInFlight st' = requestInFlight st"
    by simp
next
  assume "ttl \<le> of_int now - T"
  then have stale: "\<not> isCacheFresh b now c"
    using numeric_stamp_fresh [OF assms(4-6)] by simp
  show "weatherCache (fst (fetchWeather b now loc False st)) cleaned = None"
    using assms(1-3) stale
    by (simp add: fetchWeather_def Let_def split_beta markRequestStart_def)
  show "snd (fetchWeather b now loc False st) =
          (if isInFlight st (''weather:'' @ toLowerCase cleaned)
              \<or> fst (shouldThrottle b now (''weather:'' @ toLowerCase cleaned) False st)
           then None else Some cleaned)"
    using assms(1-3) stale
    by (simp add: fetchWeather_def Let_def split_beta isInFlight_frame shouldThrottle_frame)
qed

theorem cache_ttl_boundary_witness:
  "snd (fetchWeather sampleBrowser 1700000300009 ''Berlin'' False berlinCached) = None
   \<and> weather (fst (fetchWeather sampleBrowser 1700000300009 ''Berlin'' False berlinCached)) =
       Some berlinEntry
   \<and> weatherCache (fst (fetchWeather sampleBrowser 1700000300011 ''Berlin'' False berlinCached))
       ''Berlin'' = None
   \<and> snd (fetchWeather sampleBrowser 1700000300011 ''Berlin'' False berlinCached) = Some ''Berlin''"
proof -
  have stamp: "cachedAt berlinEntry = NumStamp 1700000000010"
    by (simp add: berlinEntry_def)
  note boundary = cache_ttl_boundary [OF sample_keys(1) _ berlinCached_facts(1) stamp _
      sampleBrowser_limits(1)]
  have before: "snd (fetchWeather sampleBrowser 1700000300009 ''Berlin'' False berlinCached) = None
      \<and> weather (fst (fetchWeather sampleBrowser 1700000300009 ''Berlin'' False berlinCached)) =
          Some berlinEntry"
    using boundary [of 1700000300009] by (simp add: Let_def)
  have after: "weatherCache (fst (fetchWeather sampleBrowser 1700000300011 ''Berlin'' False berlinCached))
        ''Berlin'' = None
      \<and> snd (fetchWeather sampleBrowser 1700000300011 ''Berlin'' False berlinCached) = Some ''Berlin''"
    using boundary [of 1700000300011]
    by (simp add: sample_keys berlinCached_facts isInFlight_def shouldThrottle_def
        sampleBrowser_limits Let_def)
  from before after show ?thesis by blast
qed



text \<open>
  Claim C6. Let a call of \<open>fetchWeather\<close> that is not forced issue a request at \<open>t1\<close>. A
  second call that is not forced, for a location with the same lower-cased trimmed text,
  at a time less than the throttle interval after \<open>t1\<close>, issues no request, whether the
  first request is still in flight or has settled, with any result. A forced call for a
  non-empty location issues a request whenever none is in flight for its key, whatever
  the cache and the cooldowns hold, and issues none when one is in flight. A call that is
  not forced issues a request exactly when the location is not empty, its entry is not
  fresh, nothing is in flight for its key and the throttle has elapsed.
\<close>

theorem throttle_and_forced_refresh:
  "(throttleMs b = Fin thr
      \<and> fetchWeather b t1 loc1 False st0 = (st1, Some q)
      \<and> toLowerCase (trim loc2) = toLowerCase (trim loc1)
      \<and> (st = st1 \<or> st = fetchWeatherSettled b ts loc1 result st1)
      \<and> real_of_int (t2 - t1) < thr
    \<longrightarrow> snd (fetchWeather b t2 loc2 False st) = None)
   \<and> (trim loc \<noteq> [] \<and> \<not> isInFlight s (''weather:'' @ toLowerCase (trim loc))
    \<longrightarrow> snd (fetchWeather b now loc True s) = Some (trim loc))
   \<and> (isInFlight s (''weather:'' @ toLowerCase (trim loc))
    \<longrightarrow> snd (fetchWeather b now loc True s) = None)
   \<and> (snd (fetchWeather b now loc False s) = Some (trim loc) \<longleftrightarrow>
        trim loc \<noteq> []
        \<and> \<not> (case weatherCache s (trim loc) of None \<Rightarrow> False | Some c \<Rightarrow> isCacheFresh b now c)
        \<and> \<not> isInFlight s (''weather:'' @ toLowerCase (trim loc))
        \<and> \<not> fst (shouldThrottle b now (''weather:'' @ toLowerCase (trim loc)) False s))"
proof (intro conjI impI)
  assume a: "throttleMs b = Fin thr
      \<and> fetchWeather b t1 loc1 False st0 = (st1, Some q)
      \<and> toLowerCase (trim loc2) = toLowerCase (trim loc1)
      \<and> (st = st1 \<or> st = fetchWeatherSettled b ts loc1 result st1)
      \<and> real_of_int (t2 - t1) < thr"
  then have "requestCooldowns st1 (''weather:'' @ toLowerCase (trim loc1)) = Some t1"
    using fetchWeather_issues(1) by blast
  then have cooldown: "requestCooldowns st (''weather:'' @ toLowerCase (trim loc2)) = Some t1"
    using a by auto
  from a have thr: "throttleMs b = Fin thr" and gap: "real_of_int (t2 - t1) < thr"
    by simp_all
  show "snd (fetchWeather b t2 loc2 False st) = None"
    by (rule fetchWeather_throttled [OF thr cooldown gap])
next
  assume "trim loc \<noteq> [] \<and> \<not> isInFlight s (''weather:'' @ toLowerCase (trim loc))"
  then show "snd (fetchWeather b now loc True s) = Some (trim loc)"
    by (simp add: fetchWeather_def Let_def isInFlight_frame split: option.splits)
next
  assume "isInFlight s (''weather:'' @ toLowerCase (trim loc))"
  then show "snd (fetchWeather b now loc True s) = None"
    by (simp add: fetchWeather_def Let_def isInFlight_frame split: option.splits)
next
  show "snd (fetchWeather b now loc False s) = Some (trim loc) \<longleftrightarrow>
        trim loc \<noteq> []
        \<and> \<not> (case weatherCache s (trim loc) of None \<Rightarrow> False | Some c \<Rightarrow> isCacheFresh b now c)
        \<and> \<not> isInFlight s (''weather:'' @ toLowerCase (trim loc))
        \<and> \<not> fst (shouldThrottle b now (''weather:'' @ toLowerCase (trim loc)) False s)"
    using fetchWeather_requests_iff [of b now loc False s] by simp
qed

theorem throttle_and_forced_refresh_witness:
  "snd (fetchWeather sampleBrowser 1700000000000 ''Berlin'' False initialState) = Some ''Berlin''
   \<and> snd (fetchWeather sampleBrowser 1700000000500 ''Berlin'' False
          (fetchWeatherSettled sampleBrowser 1700000000100 ''Berlin'' (Failed ''Failed to fetch'')
             (fst (fetchWeather sampleBrowser 1700000000000 ''Berlin'' False initialState)))) = None
   \<and> snd (fetchWeather sampleBrowser 1700000000500 ''Berlin'' True berlinCached) = Some ''Berlin''
   \<and> snd (fetchWeather sampleBrowser 1700000000500 ''Berlin'' True
          (fst (fetchWeather sampleBrowser 1700000000000 ''Berlin'' False initialState))) = None"
proof -
  let ?st1 = "fst (fetchWeather sampleBrowser 1700000000000 ''Berlin'' False initialState)"
  have first: "fetchWeather sampleBrowser 1700000000000 ''Berlin'' False initialState =
      (?st1, Some ''Berlin'')"
    by (simp add: prod_eq_iff first_search)
  have second: "snd (fetchWeather sampleBrowser 1700000000500 ''Berlin'' False
      (fetchWeatherSettled sampleBrowser 1700000000100 ''Berlin'' (Failed ''Failed to fetch'') ?st1)) =
      None"
    using throttle_and_forced_refresh [where b = sampleBrowser and thr = 1200
        and ?t1.0 = 1700000000000 and ?loc1.0 = "''Berlin''" and ?st0.0 = initialState
        and ?st1.0 = ?st1 and q = "''Berlin''" and ?loc2.0 = "''Berlin''"
        and st = "fetchWeatherSettled sampleBrowser 1700000000100 ''Berlin''
                    (Failed ''Failed to fetch'') ?st1"
        and ts = 1700000000100 and result = "Failed ''Failed to fetch''"
        and ?t2.0 = 1700000000500] first
    by (simp add: sampleBrowser_limits)
  have forced: "snd (fetchWeather sampleBrowser 1700000000500 ''Berlin'' True berlinCached) =
      Some ''Berlin''"
    using throttle_and_forced_refresh [where loc = "''Berlin''" and s = berlinCached
        and b = sampleBrowser and now = 1700000000500]
    by (simp add: sample_keys isInFlight_def berlinCached_facts)
  have suppressed: "snd (fetchWeather sampleBrowser 1700000000500 ''Berlin'' True ?st1) = None"
    using throttle_and_forced_refresh [where loc = "''Berlin''" and s = ?st1
        and b = sampleBrowser and now = 1700000000500]
    by (simp add: sample_keys isInFlight_def first_search)
  from first_search(1) second forced suppressed show ?thesis by blast
qed


section \<open>Temperature display\<close>

text \<open>
  Claim C9. \<open>formatTemp\<close> shows 21.5 degrees Celsius as 71 F, and converting 71 back gives
  a value within 5/18 of a degree Celsius of 21.5, which is half a degree Fahrenheit, the
  most that rounding to a whole number can change. The same bound holds for every
  temperature, and without the rounding the conversion back is exact.
\<close>

theorem temperature_round_trip:
  "formatTemp (Some 21.5) ''f'' = Degrees 71 ''F''
   \<and> \<bar>spec_toCelsius 71 - 21.5\<bar> \<le> 5 / 18
   \<and> formatTemp (Some x) ''f'' = Degrees (round (toFahrenheit x)) ''F''
   \<and> \<bar>spec_toCelsius (of_int (round (toFahrenheit x))) - x\<bar> \<le> 5 / 18
   \<and> spec_toCelsius (toFahrenheit x) = x"
proof -
  have unit: "toUpperCase ''f'' = ''F''"
    by (simp add: toUpperCase_def upperChar_def)
  have r: "round (toFahrenheit 21.5) = 71"
    by (simp add: toFahrenheit_def round_def floor_eq_iff)
  have a: "formatTemp (Some 21.5) ''f'' = Degrees 71 ''F''"
    using r unit by (simp add: formatTemp_def)
  have b: "\<bar>spec_toCelsius 71 - 21.5\<bar> \<le> 5 / 18" by (simp add: spec_toCelsius_def)
  have c: "formatTemp (Some x) ''f'' = Degrees (round (toFahrenheit x)) ''F''"
    using unit by (simp add: formatTemp_def)
  have "\<bar>of_int (round (toFahrenheit x)) - toFahrenheit x\<bar> \<le> 1 / 2"
    by (rule of_int_round_abs_le)
  then have d: "\<bar>spec_toCelsius (of_int (round (toFahrenheit x))) - x\<bar> \<le> 5 / 18"
    by (simp add: spec_toCelsius_def toFahrenheit_def abs_le_iff field_simps)
  have e: "spec_toCelsius (toFahrenheit x) = x"
    by (simp add: spec_toCelsius_def toFahrenheit_def)
  from a b c d e show ?thesis by blast
qed


end
